theory Spec2Isabelle
  imports Complex_Main
begin

section \<open>Numeric cells\<close>

text \<open>
  The arrays of the pipeline hold IEEE doubles. A cell is modelled as a finite value
  (an exact real), as NaN (xarray's marker for missing data), or as one of the two
  infinities. Rounding, overflow and the sign of zero are not modelled: on finite
  operands every operation below is the exact real operation.
\<close>

datatype npfloat = Fin real | NaN | PInf | NInf

fun np_neg :: "npfloat \<Rightarrow> npfloat" where
  "np_neg (Fin a) = Fin (- a)"
| "np_neg NaN = NaN"
| "np_neg PInf = NInf"
| "np_neg NInf = PInf"

fun np_add :: "npfloat \<Rightarrow> npfloat \<Rightarrow> npfloat" where
  "np_add (Fin a) (Fin b) = Fin (a + b)"
| "np_add NaN _ = NaN"
| "np_add _ NaN = NaN"
| "np_add PInf NInf = NaN"
| "np_add NInf PInf = NaN"
| "np_add PInf _ = PInf"
| "np_add NInf _ = NInf"
| "np_add _ PInf = PInf"
| "np_add _ NInf = NInf"

definition np_sub :: "npfloat \<Rightarrow> npfloat \<Rightarrow> npfloat" where
  "np_sub x y = np_add x (np_neg y)"

text \<open>The sign of a product or quotient with an infinite operand.\<close>

definition signed_inf :: "bool \<Rightarrow> npfloat" where
  "signed_inf positive = (if positive then PInf else NInf)"

fun np_mul :: "npfloat \<Rightarrow> npfloat \<Rightarrow> npfloat" where
  "np_mul (Fin a) (Fin b) = Fin (a * b)"
| "np_mul NaN _ = NaN"
| "np_mul _ NaN = NaN"
| "np_mul PInf (Fin b) = (if b = 0 then NaN else signed_inf (0 < b))"
| "np_mul NInf (Fin b) = (if b = 0 then NaN else signed_inf (b < 0))"
| "np_mul (Fin a) PInf = (if a = 0 then NaN else signed_inf (0 < a))"
| "np_mul (Fin a) NInf = (if a = 0 then NaN else signed_inf (a < 0))"
| "np_mul PInf PInf = PInf"
| "np_mul NInf NInf = PInf"
| "np_mul PInf NInf = NInf"
| "np_mul NInf PInf = NInf"

text \<open>
  numpy division does not raise: \<open>0/0\<close> is NaN and \<open>x/0\<close> for a nonzero \<open>x\<close> is an
  infinity (a warning is printed, the computation goes on).
\<close>

fun np_div :: "npfloat \<Rightarrow> npfloat \<Rightarrow> npfloat" where
  "np_div (Fin a) (Fin b) =
     (if b = 0 then (if a = 0 then NaN else signed_inf (0 < a)) else Fin (a / b))"
| "np_div NaN _ = NaN"
| "np_div _ NaN = NaN"
| "np_div (Fin a) PInf = Fin 0"
| "np_div (Fin a) NInf = Fin 0"
| "np_div PInf (Fin b) = signed_inf (0 \<le> b)"
| "np_div NInf (Fin b) = signed_inf (b < 0)"
| "np_div PInf PInf = NaN"
| "np_div PInf NInf = NaN"
| "np_div NInf PInf = NaN"
| "np_div NInf NInf = NaN"

text \<open>Comparisons with NaN are false.\<close>

fun np_less :: "npfloat \<Rightarrow> npfloat \<Rightarrow> bool" where
  "np_less (Fin a) (Fin b) = (a < b)"
| "np_less NaN _ = False"
| "np_less _ NaN = False"
| "np_less NInf NInf = False"
| "np_less NInf _ = True"
| "np_less _ NInf = False"
| "np_less PInf _ = False"
| "np_less _ PInf = True"

definition isnan :: "npfloat \<Rightarrow> bool" where
  "isnan x = (x = NaN)"

definition isfinite :: "npfloat \<Rightarrow> bool" where
  "isfinite x = (case x of Fin _ \<Rightarrow> True | _ \<Rightarrow> False)"

text \<open>A plain sum of an array, and the sum xarray takes by default on floating-point
  data (\<open>skipna\<close>: NaN cells count as zero).\<close>

definition np_sum :: "npfloat list \<Rightarrow> npfloat" where
  "np_sum xs = foldl np_add (Fin 0) xs"

definition np_nansum :: "npfloat list \<Rightarrow> npfloat" where
  "np_nansum xs = np_sum (filter (\<lambda>x. \<not> isnan x) xs)"

text \<open>The mean xarray takes by default on floating-point data: the mean of the cells
  that are not NaN; where there is none (an empty axis included) the result is NaN.\<close>

definition np_nanmean :: "npfloat list \<Rightarrow> npfloat" where
  "np_nanmean xs =
     (let ys = filter (\<lambda>x. \<not> isnan x) xs
      in np_div (np_sum ys) (Fin (real (length ys))))"

section \<open>Grids\<close>

text \<open>
  A two-dimensional DataArray with dimensions \<open>(lat, lon)\<close>: the two coordinate
  vectors and the cell values, one row per latitude, one entry per longitude.
\<close>

record grid =
  lat :: "real list"
  lon :: "real list"
  vals :: "npfloat list list"

definition wf_grid :: "grid \<Rightarrow> bool" where
  "wf_grid g =
     (length (vals g) = length (lat g) \<and> list_all (\<lambda>row. length row = length (lon g)) (vals g))"


definition map_cells :: "(npfloat \<Rightarrow> npfloat) \<Rightarrow> grid \<Rightarrow> grid" where
  "map_cells f g = g\<lparr>vals := map (map f) (vals g)\<rparr>"

text \<open>
  \<open>a - b\<close> on two DataArrays. xarray first aligns the operands by coordinate label
  (it keeps the labels both have); the definition covers operands on one and the same
  grid, where nothing is realigned and the result is the cell-by-cell difference on
  that grid. Every theorem that speaks of a difference assumes that its operands are
  on one grid (\<open>on_grid\<close>).
\<close>

definition da_sub :: "grid \<Rightarrow> grid \<Rightarrow> grid" where
  "da_sub a b = a\<lparr>vals := map2 (map2 np_sub) (vals a) (vals b)\<rparr>"

section \<open>Solar potential model\<close>

text \<open>
  \<^verbatim>\<open>uncapped_change = -0.48 * pm25_data / 17.71 * 100\<close>
  \<^verbatim>\<open>solar_potential_change = xr.where(uncapped_change < -100, -100, uncapped_change)\<close>
\<close>

definition uncapped_change :: "npfloat \<Rightarrow> npfloat" where
  "uncapped_change p = np_mul (np_div (np_mul (Fin (- 0.48)) p) (Fin 17.71)) (Fin 100)"

definition solar_cell :: "npfloat \<Rightarrow> npfloat" where
  "solar_cell p =
     (let u = uncapped_change p in if np_less u (Fin (- 100)) then Fin (- 100) else u)"

definition calculate_solar_potential_change :: "grid \<Rightarrow> grid" where
  "calculate_solar_potential_change pm25_data = map_cells solar_cell pm25_data"

definition within_percent_range :: "npfloat \<Rightarrow> bool" where
  "within_percent_range x = (case x of Fin r \<Rightarrow> - 100 \<le> r \<and> r \<le> 0 | _ \<Rightarrow> False)"

section \<open>Longitude normalizer\<close>

text \<open>
  \<^verbatim>\<open>xr.where(ds[lon] > 180, ds[lon] - 360, ds[lon])\<close>, then \<^verbatim>\<open>swap_dims\<close>,
  \<^verbatim>\<open>sortby\<close> and \<^verbatim>\<open>rename\<close>. \<open>sortby\<close> computes a stable ascending ordering of
  the positions along the dimension and takes the coordinate and every row of the
  data at these positions.
\<close>

definition longitude_adjusted :: "real \<Rightarrow> real" where
  "longitude_adjusted v = (if v > 180 then v - 360 else v)"

definition argsort :: "real list \<Rightarrow> nat list" where
  "argsort keys = sort_key (\<lambda>k. keys ! k) [0..<length keys]"

definition fix_lon :: "grid \<Rightarrow> grid" where
  "fix_lon ds =
     (let adjusted = map longitude_adjusted (lon ds);
          order = argsort adjusted
      in \<lparr>lat = lat ds,
          lon = map (\<lambda>k. adjusted ! k) order,
          vals = map (\<lambda>row. map (\<lambda>k. row ! k) order) (vals ds)\<rparr>)"

text \<open>The value a grid holds at a latitude row and a longitude label.\<close>

definition cell_at :: "grid \<Rightarrow> nat \<Rightarrow> real \<Rightarrow> npfloat option" where
  "cell_at g i v = map_of (zip (lon g) (vals g ! i)) v"

section \<open>Regional aggregator\<close>

record region_bounds =
  lat_min :: real
  lat_max :: real
  lon_min :: real
  lon_max :: real

definition regions :: "(string \<times> region_bounds) list" where
  "regions =
     [(''North America'', \<lparr>lat_min = 15, lat_max = 70, lon_min = - 170, lon_max = - 50\<rparr>),
      (''South America'', \<lparr>lat_min = - 55, lat_max = 15, lon_min = - 80, lon_max = - 35\<rparr>),
      (''Europe'', \<lparr>lat_min = 35, lat_max = 70, lon_min = - 10, lon_max = 40\<rparr>),
      (''Africa'', \<lparr>lat_min = - 35, lat_max = 35, lon_min = - 20, lon_max = 55\<rparr>),
      (''Asia'', \<lparr>lat_min = 0, lat_max = 55, lon_min = 60, lon_max = 150\<rparr>),
      (''Australia'', \<lparr>lat_min = - 45, lat_max = - 10, lon_min = 110, lon_max = 155\<rparr>)]"

text \<open>
  \<^verbatim>\<open>data.sel(lat=slice(lo, hi), lon=slice(..))\<close> on an ascending coordinate: the index
  looks up the first position whose label is not below \<open>lo\<close> and the position after
  the last label that is not above \<open>hi\<close>, and takes the positional slice between
  them (empty when the second is not after the first). Ascending coordinates are what
  the pipeline produces (\<open>fix_lon\<close> sorts the longitudes) and what every theorem on
  the aggregator assumes: on a descending coordinate the index selects nothing for
  \<open>lo < hi\<close>, and on a coordinate that is not monotonic the lookup raises \<open>KeyError\<close>;
  neither case is covered by these definitions.
\<close>

definition searchsorted_left :: "real list \<Rightarrow> real \<Rightarrow> nat" where
  "searchsorted_left xs v = length (takeWhile (\<lambda>x. x < v) xs)"

definition searchsorted_right :: "real list \<Rightarrow> real \<Rightarrow> nat" where
  "searchsorted_right xs v = length (takeWhile (\<lambda>x. x \<le> v) xs)"

definition py_slice :: "nat \<Rightarrow> nat \<Rightarrow> 'a list \<Rightarrow> 'a list" where
  "py_slice start stop xs = take (stop - start) (drop start xs)"

definition sel_region :: "region_bounds \<Rightarrow> grid \<Rightarrow> grid" where
  "sel_region region_bounds data =
     (let la0 = searchsorted_left (lat data) (lat_min region_bounds);
          la1 = searchsorted_right (lat data) (lat_max region_bounds);
          lo0 = searchsorted_left (lon data) (lon_min region_bounds);
          lo1 = searchsorted_right (lon data) (lon_max region_bounds)
      in \<lparr>lat = py_slice la0 la1 (lat data),
          lon = py_slice lo0 lo1 (lon data),
          vals = map (py_slice lo0 lo1) (py_slice la0 la1 (vals data))\<rparr>)"

definition deg2rad :: "real \<Rightarrow> real" where
  "deg2rad x = x * (pi / 180)"

text \<open>
  The body of the inner loop of \<open>calculate_regional_means\<close>. \<open>weights\<close> has the
  latitude dimension only; multiplying \<open>ones_like(region_data)\<close> by it repeats each
  weight along its row. Both sums are xarray sums over \<open>lat\<close> and \<open>lon\<close>.
\<close>

definition regional_mean :: "region_bounds \<Rightarrow> grid \<Rightarrow> npfloat" where
  "regional_mean region_bounds data =
     (let region_data = sel_region region_bounds data;
          weights = map (\<lambda>la. cos (deg2rad la)) (lat region_data);
          weight_factors =
            map2 (\<lambda>row w. map (\<lambda>_. np_mul (Fin 1) (Fin w)) row) (vals region_data) weights;
          weighted_sum =
            np_nansum (concat (map2 (map2 np_mul) (vals region_data) weight_factors));
          sum_of_weights = np_nansum (concat weight_factors)
      in np_div weighted_sum sum_of_weights)"

definition calculate_regional_means ::
  "(string \<times> grid) list \<Rightarrow> (string \<times> (string \<times> npfloat) list) list" where
  "calculate_regional_means data_dict =
     map (\<lambda>(region_name, region_bounds).
            (region_name,
             map (\<lambda>(data_name, data). (data_name, regional_mean region_bounds data)) data_dict))
         regions"

text \<open>
  The specification's reading of the regional mean, to compare with the code: the
  window is every cell whose latitude and longitude lie within the bounds, ends
  included; the weight of a cell is the cosine of its latitude in radians; the mean is
  the weighted sum over the window divided by the sum of the weights over the window.
\<close>

definition in_window :: "region_bounds \<Rightarrow> real \<Rightarrow> real \<Rightarrow> bool" where
  "in_window rb la lo =
     (lat_min rb \<le> la \<and> la \<le> lat_max rb \<and> lon_min rb \<le> lo \<and> lo \<le> lon_max rb)"

definition fin_value :: "npfloat \<Rightarrow> real" where
  "fin_value x = (case x of Fin r \<Rightarrow> r | _ \<Rightarrow> 0)"

definition window_sum :: "region_bounds \<Rightarrow> grid \<Rightarrow> (nat \<Rightarrow> nat \<Rightarrow> real) \<Rightarrow> real" where
  "window_sum rb g f =
     (\<Sum>i\<leftarrow>[0..<length (lat g)]. \<Sum>j\<leftarrow>[0..<length (lon g)].
        if in_window rb (lat g ! i) (lon g ! j) then f i j else 0)"

definition spec_weighted_mean :: "region_bounds \<Rightarrow> grid \<Rightarrow> npfloat" where
  "spec_weighted_mean rb g =
     np_div
       (Fin (window_sum rb g (\<lambda>i j. fin_value (vals g ! i ! j) * cos (lat g ! i * pi / 180))))
       (Fin (window_sum rb g (\<lambda>i j. cos (lat g ! i * pi / 180))))"

definition all_finite :: "grid \<Rightarrow> bool" where
  "all_finite g = list_all (list_all isfinite) (vals g)"

section \<open>Scenario loader\<close>

datatype error =
    FileNotFoundError string
  | KeyError string
  | IndexError
  | ValueError

text \<open>
  The variable read from a file: either it has the dimensions \<open>(time, lat, lon)\<close>,
  a list of frames, one per time step, each of the shape of the grid; or it has no time
  dimension and is a grid already.
\<close>

datatype dataarray =
    DA_time "real list" "real list" "npfloat list list list"
  | DA_2d grid

type_synonym dataset = "string \<Rightarrow> dataarray option"

type_synonym filesystem = "string \<Rightarrow> dataset option"

definition open_dataset :: "filesystem \<Rightarrow> string \<Rightarrow> error + dataset" where
  "open_dataset fs path =
     (case fs path of None \<Rightarrow> Inl (FileNotFoundError path) | Some ds \<Rightarrow> Inr ds)"

definition getitem :: "dataset \<Rightarrow> string \<Rightarrow> error + dataarray" where
  "getitem ds name = (case ds name of None \<Rightarrow> Inl (KeyError name) | Some v \<Rightarrow> Inr v)"

text \<open>
  \<^verbatim>\<open>if 'time' in pm25.dims: pm25 = pm25.mean(dim='time')\<close>. The mean is taken cell
  by cell along the time axis, whatever its length; there is no check of the length.
\<close>

fun time_average :: "dataarray \<Rightarrow> grid" where
  "time_average (DA_time la lo frames) =
     \<lparr>lat = la, lon = lo,
      vals = map (\<lambda>i. map (\<lambda>j. np_nanmean (map (\<lambda>frame. frame ! i ! j) frames))
                         [0..<length lo])
                 [0..<length la]\<rparr>"
| "time_average (DA_2d g) = g"

text \<open>
  The statistics lines print the minimum, maximum and mean of a field. The minimum
  of an array without any cell raises \<open>ValueError\<close>; otherwise the line is printed.
\<close>

definition print_stats :: "grid \<Rightarrow> error + unit" where
  "print_stats g = (if concat (vals g) = [] then Inl ValueError else Inr ())"

fun print_all_stats :: "grid list \<Rightarrow> error + unit" where
  "print_all_stats [] = Inr ()"
| "print_all_stats (g # gs) =
     (case print_stats g of Inl e \<Rightarrow> Inl e | Inr _ \<Rightarrow> print_all_stats gs)"

definition data_dir :: string where
  "data_dir = ''./data''"

definition os_path_join :: "string \<Rightarrow> string \<Rightarrow> string" where
  "os_path_join d f = d @ ''/'' @ f"

function str_nat :: "nat \<Rightarrow> string" where
  "str_nat n =
     (if n < 10 then [''0123456789'' ! n] else str_nat (n div 10) @ [''0123456789'' ! (n mod 10)])"
  by pat_completeness auto
termination
  by (relation "measure id") auto

definition str_int :: "int \<Rightarrow> string" where
  "str_int i = (if i < 0 then ''-'' @ str_nat (nat (- i)) else str_nat (nat i))"

definition process_scenario_data :: "filesystem \<Rightarrow> int \<Rightarrow> string \<Rightarrow> error + grid \<times> grid \<times> grid" where
  "process_scenario_data fs year scenario =
     (if length scenario < 2 then Inl IndexError
      else
        let baseline_path =
              os_path_join data_dir (''CESM_09x125_PM25_'' @ str_int year @ ''_RCP'' @ scenario @ ''.nc'');
            nofire_path =
              os_path_join data_dir
                (''CESM_09x125_PM25_'' @ str_int year @ ''_RCP'' @ scenario @ ''_NoFire.nc'')
        in case open_dataset fs baseline_path of Inl e \<Rightarrow> Inl e | Inr baseline_ds \<Rightarrow>
           (case open_dataset fs nofire_path of Inl e \<Rightarrow> Inl e | Inr nofire_ds \<Rightarrow>
           (case getitem baseline_ds ''pm25'' of Inl e \<Rightarrow> Inl e | Inr baseline_var \<Rightarrow>
           (case getitem nofire_ds ''pm25'' of Inl e \<Rightarrow> Inl e | Inr nofire_var \<Rightarrow>
              let baseline_pm25 = fix_lon (time_average baseline_var);
                  nofire_pm25 = fix_lon (time_average nofire_var);
                  wildfire_pm25 = da_sub baseline_pm25 nofire_pm25
              in case print_stats wildfire_pm25 of Inl e \<Rightarrow> Inl e
                 | Inr _ \<Rightarrow> Inr (wildfire_pm25, baseline_pm25, nofire_pm25)))))"

section \<open>Orchestrator\<close>

text \<open>
  The second part of \<open>main\<close>, after the five loads: the differences, the solar
  potential fields and their differences, the statistics lines printed for them in the
  order of the source, and the mapping that is returned.
\<close>

definition derive_fields ::
  "grid \<times> grid \<times> grid \<Rightarrow> grid \<times> grid \<times> grid \<Rightarrow> grid \<times> grid \<times> grid \<Rightarrow>
   grid \<times> grid \<times> grid \<Rightarrow> grid \<times> grid \<times> grid \<Rightarrow> error + (string \<times> grid) list" where
  "derive_fields s2000 s2050_45 s2050_85 s2100_45 s2100_85 =
     (case (s2000, s2050_45, s2050_85, s2100_45, s2100_85) of
        ((wildfire_pm25_2000, baseline_pm25_2000, nofire_pm25_2000),
         (wildfire_pm25_2050_45, baseline_pm25_2050_45, nofire_pm25_2050_45),
         (wildfire_pm25_2050_85, baseline_pm25_2050_85, nofire_pm25_2050_85),
         (wildfire_pm25_2100_45, baseline_pm25_2100_45, nofire_pm25_2100_45),
         (wildfire_pm25_2100_85, baseline_pm25_2100_85, nofire_pm25_2100_85)) \<Rightarrow>
      let change_2000_to_2050_45 = da_sub wildfire_pm25_2050_45 wildfire_pm25_2000;
          change_2000_to_2050_85 = da_sub wildfire_pm25_2050_85 wildfire_pm25_2000;
          change_2050_to_2100_45 = da_sub wildfire_pm25_2100_45 wildfire_pm25_2050_45;
          change_2050_to_2100_85 = da_sub wildfire_pm25_2100_85 wildfire_pm25_2050_85;
          change_2000_to_2100_45 = da_sub wildfire_pm25_2100_45 wildfire_pm25_2000;
          change_2000_to_2100_85 = da_sub wildfire_pm25_2100_85 wildfire_pm25_2000
      in case print_all_stats
                [change_2000_to_2050_45, change_2050_to_2100_45, change_2000_to_2100_45,
                 change_2000_to_2050_85, change_2050_to_2100_85, change_2000_to_2100_85] of
           Inl e \<Rightarrow> Inl e
         | Inr _ \<Rightarrow>
      let solar_change_2000 = calculate_solar_potential_change wildfire_pm25_2000;
          solar_change_2050_45 = calculate_solar_potential_change wildfire_pm25_2050_45;
          solar_change_2050_85 = calculate_solar_potential_change wildfire_pm25_2050_85;
          solar_change_2100_45 = calculate_solar_potential_change wildfire_pm25_2100_45;
          solar_change_2100_85 = calculate_solar_potential_change wildfire_pm25_2100_85
      in case print_all_stats
                [solar_change_2000, solar_change_2050_45, solar_change_2050_85,
                 solar_change_2100_45, solar_change_2100_85] of
           Inl e \<Rightarrow> Inl e
         | Inr _ \<Rightarrow>
      let solar_diff_2000_to_2050_45 = da_sub solar_change_2050_45 solar_change_2000;
          solar_diff_2000_to_2050_85 = da_sub solar_change_2050_85 solar_change_2000;
          solar_diff_2050_to_2100_45 = da_sub solar_change_2100_45 solar_change_2050_45;
          solar_diff_2050_to_2100_85 = da_sub solar_change_2100_85 solar_change_2050_85;
          solar_diff_2000_to_2100_45 = da_sub solar_change_2100_45 solar_change_2000;
          solar_diff_2000_to_2100_85 = da_sub solar_change_2100_85 solar_change_2000
      in case print_all_stats
                [solar_diff_2000_to_2050_45, solar_diff_2000_to_2050_85,
                 solar_diff_2050_to_2100_45, solar_diff_2050_to_2100_85,
                 solar_diff_2000_to_2100_45, solar_diff_2000_to_2100_85] of
           Inl e \<Rightarrow> Inl e
         | Inr _ \<Rightarrow>
      Inr [
         (''baseline_pm25_2000'', baseline_pm25_2000),
         (''baseline_pm25_2050_45'', baseline_pm25_2050_45),
         (''baseline_pm25_2050_85'', baseline_pm25_2050_85),
         (''baseline_pm25_2100_45'', baseline_pm25_2100_45),
         (''baseline_pm25_2100_85'', baseline_pm25_2100_85),
         (''nofire_pm25_2000'', nofire_pm25_2000),
         (''nofire_pm25_2050_45'', nofire_pm25_2050_45),
         (''nofire_pm25_2050_85'', nofire_pm25_2050_85),
         (''nofire_pm25_2100_45'', nofire_pm25_2100_45),
         (''nofire_pm25_2100_85'', nofire_pm25_2100_85),
         (''wildfire_pm25_2000'', wildfire_pm25_2000),
         (''wildfire_pm25_2050_45'', wildfire_pm25_2050_45),
         (''wildfire_pm25_2050_85'', wildfire_pm25_2050_85),
         (''wildfire_pm25_2100_45'', wildfire_pm25_2100_45),
         (''wildfire_pm25_2100_85'', wildfire_pm25_2100_85),
         (''change_2000_to_2050_45'', change_2000_to_2050_45),
         (''change_2000_to_2050_85'', change_2000_to_2050_85),
         (''change_2050_to_2100_45'', change_2050_to_2100_45),
         (''change_2050_to_2100_85'', change_2050_to_2100_85),
         (''change_2000_to_2100_45'', change_2000_to_2100_45),
         (''change_2000_to_2100_85'', change_2000_to_2100_85),
         (''solar_change_2000'', solar_change_2000),
         (''solar_change_2050_45'', solar_change_2050_45),
         (''solar_change_2050_85'', solar_change_2050_85),
         (''solar_change_2100_45'', solar_change_2100_45),
         (''solar_change_2100_85'', solar_change_2100_85),
         (''solar_diff_2000_to_2050_45'', solar_diff_2000_to_2050_45),
         (''solar_diff_2000_to_2050_85'', solar_diff_2000_to_2050_85),
         (''solar_diff_2050_to_2100_45'', solar_diff_2050_to_2100_45),
         (''solar_diff_2050_to_2100_85'', solar_diff_2050_to_2100_85),
         (''solar_diff_2000_to_2100_45'', solar_diff_2000_to_2100_45),
         (''solar_diff_2000_to_2100_85'', solar_diff_2000_to_2100_85)])"

text \<open>
  \<open>main\<close> of the processing module: the year 2000 pair is loaded in line (the first
  part of \<open>main\<close>, \<open>load_2000\<close> here), the four future pairs through
  \<open>process_scenario_data\<close>; the first failure ends the run.
\<close>

definition load_2000 :: "filesystem \<Rightarrow> error + grid \<times> grid \<times> grid" where
  "load_2000 fs =
     (let baseline_2000_path = os_path_join data_dir ''CESM_09x125_PM25_2000_Baseline.nc'';
          nofire_2000_path = os_path_join data_dir ''CESM_09x125_PM25_2000_BaseLine_NoFire.nc''
      in case open_dataset fs baseline_2000_path of Inl e \<Rightarrow> Inl e | Inr baseline_2000_ds \<Rightarrow>
         (case open_dataset fs nofire_2000_path of Inl e \<Rightarrow> Inl e | Inr nofire_2000_ds \<Rightarrow>
         (case getitem baseline_2000_ds ''pm25'' of Inl e \<Rightarrow> Inl e | Inr baseline_var \<Rightarrow>
         (case getitem nofire_2000_ds ''pm25'' of Inl e \<Rightarrow> Inl e | Inr nofire_var \<Rightarrow>
            let baseline_pm25_2000 = fix_lon (time_average baseline_var);
                nofire_pm25_2000 = fix_lon (time_average nofire_var);
                wildfire_pm25_2000 = da_sub baseline_pm25_2000 nofire_pm25_2000
            in case print_stats wildfire_pm25_2000 of Inl e \<Rightarrow> Inl e
               | Inr _ \<Rightarrow> Inr (wildfire_pm25_2000, baseline_pm25_2000, nofire_pm25_2000)))))"

definition main :: "filesystem \<Rightarrow> error + (string \<times> grid) list" where
  "main fs =
     (case load_2000 fs of Inl e \<Rightarrow> Inl e | Inr s2000 \<Rightarrow>
     (case process_scenario_data fs 2050 ''45'' of Inl e \<Rightarrow> Inl e | Inr s2050_45 \<Rightarrow>
     (case process_scenario_data fs 2050 ''85'' of Inl e \<Rightarrow> Inl e | Inr s2050_85 \<Rightarrow>
     (case process_scenario_data fs 2100 ''45'' of Inl e \<Rightarrow> Inl e | Inr s2100_45 \<Rightarrow>
     (case process_scenario_data fs 2100 ''85'' of Inl e \<Rightarrow> Inl e | Inr s2100_85 \<Rightarrow>
        derive_fields s2000 s2050_45 s2050_85 s2100_45 s2100_85)))))"

definition field_count :: "error + (string \<times> grid) list \<Rightarrow> nat option" where
  "field_count r = (case r of Inl _ \<Rightarrow> None | Inr m \<Rightarrow> Some (length m))"










definition starts_with :: "string \<Rightarrow> string \<Rightarrow> bool" where
  "starts_with pre s = (take (length pre) s = pre)"

definition ends_with :: "string \<Rightarrow> string \<Rightarrow> bool" where
  "ends_with suf s = (drop (length s - length suf) s = suf)"




section \<open>Command line entry point\<close>

text \<open>
  \<open>run_visualization.py\<close>. The rendering calls draw with matplotlib and write files;
  their effect on the world is a parameter of the model (\<open>exec\<close>), a function from the
  state of the world to the new state and, when the call raises, the exception. What
  is modelled is the control flow around them: the imports, the argument, the call
  that runs before the \<open>try\<close> block, the block itself and its handler, and the exit of
  the process. Of what the process writes, only the reports of an exception are
  recorded (the handler's message, the handler's traceback, the interpreter's
  traceback); the progress lines are not.
\<close>

datatype exn = Exception string | SystemExit int

datatype step =
    ProcessData
  | ExtractDatasets
  | CreatePm25Map string
  | CreateScenarioComparisonMap string
  | CreateSolarPotentialMap string
  | CalculateRegionalMeans string
  | CreateRegionalBarChart string

datatype event =
    HandlerMessage exn
  | HandlerTraceback exn
  | InterpreterTraceback exn

datatype outcome = Returned int | Raised exn

text \<open>
  \<open>import_modules\<close> is the code the imported modules run at import (the processing
  module lists the data directory, which raises when the directory is missing).
\<close>

record 's environment =
  import_modules :: "'s \<Rightarrow> exn option \<times> 's"
  set_output_directory :: "string \<Rightarrow> 's \<Rightarrow> exn option \<times> 's"
  exec :: "step \<Rightarrow> 's \<Rightarrow> exn option \<times> 's"

record 's main_result =
  outcome :: outcome
  reports :: "event list"
  world :: 's
  attempted :: "step list"

record 's process_result =
  exit_status :: int
  error_reports :: "event list"
  final_world :: 's
  steps_run :: "step list"

definition DEFAULT_OUTPUT_DIR :: string where
  "DEFAULT_OUTPUT_DIR = ''./figures''"

text \<open>The calls inside the \<open>try\<close> block, in the order of the source.\<close>

definition try_body :: "step list" where
  "try_body =
     [ProcessData, ExtractDatasets,
      CreatePm25Map ''wildfire_pm25_2000.png'',
      CreatePm25Map ''wildfire_pm25_2050_rcp45.png'',
      CreatePm25Map ''wildfire_pm25_2050_rcp85.png'',
      CreatePm25Map ''wildfire_pm25_2100_rcp45.png'',
      CreatePm25Map ''wildfire_pm25_2100_rcp85.png'',
      CreateScenarioComparisonMap ''wildfire_pm25_scenario_comparison.png'',
      CreateScenarioComparisonMap ''wildfire_pm25_changes.png'',
      CreateSolarPotentialMap ''solar_potential_loss_2000.png'',
      CreateSolarPotentialMap ''solar_potential_loss_2050_rcp45.png'',
      CreateSolarPotentialMap ''solar_potential_loss_2050_rcp85.png'',
      CreateSolarPotentialMap ''solar_potential_loss_2100_rcp45.png'',
      CreateSolarPotentialMap ''solar_potential_loss_2100_rcp85.png'',
      CreateScenarioComparisonMap ''solar_potential_loss_scenario_comparison.png'',
      CreateScenarioComparisonMap ''solar_potential_loss_changes.png'',
      CalculateRegionalMeans ''pm25_scenario_dict'',
      CreateRegionalBarChart ''regional_wildfire_pm25.png'',
      CalculateRegionalMeans ''solar_scenario_dict'',
      CreateRegionalBarChart ''regional_solar_potential_loss.png'',
      CalculateRegionalMeans ''solar_changes_dict'',
      CreateRegionalBarChart ''regional_solar_potential_loss_changes.png'']"

text \<open>Runs the calls in order and stops at the first one that raises; returns the
  exception if any, the state reached and the calls that were started.\<close>

fun run_steps ::
  "(step \<Rightarrow> 's \<Rightarrow> exn option \<times> 's) \<Rightarrow> step list \<Rightarrow> 's \<Rightarrow> exn option \<times> 's \<times> step list" where
  "run_steps ex [] w = (None, w, [])"
| "run_steps ex (st # rest) w =
     (case ex st w of
        (Some e, w') \<Rightarrow> (Some e, w', [st])
      | (None, w') \<Rightarrow>
          (case run_steps ex rest w' of (r, w'', started) \<Rightarrow> (r, w'', st # started)))"

text \<open>
  \<open>main(out_dir)\<close>: \<open>viz.set_output_directory\<close> is called before the \<open>try\<close>
  block; \<open>except Exception\<close> catches the exceptions derived from \<open>Exception\<close>, prints
  the message and the traceback and returns 1.
\<close>

definition cli_main :: "'s environment \<Rightarrow> string \<Rightarrow> 's \<Rightarrow> 's main_result" where
  "cli_main env out_dir w =
     (case set_output_directory env out_dir w of
        (Some e, w1) \<Rightarrow> \<lparr>outcome = Raised e, reports = [], world = w1, attempted = []\<rparr>
      | (None, w1) \<Rightarrow>
          (case run_steps (exec env) try_body w1 of
             (None, w2, started) \<Rightarrow>
               \<lparr>outcome = Returned 0, reports = [], world = w2, attempted = started\<rparr>
           | (Some (Exception msg), w2, started) \<Rightarrow>
               \<lparr>outcome = Returned 1,
                reports = [HandlerMessage (Exception msg), HandlerTraceback (Exception msg)],
                world = w2, attempted = started\<rparr>
           | (Some (SystemExit c), w2, started) \<Rightarrow>
               \<lparr>outcome = Raised (SystemExit c), reports = [], world = w2,
                attempted = started\<rparr>))"

text \<open>
  An exception that nothing catches reaches the interpreter, which prints the
  traceback and ends the process with status 1 (silently, with the requested status,
  for \<open>SystemExit\<close>).
\<close>

definition uncaught :: "exn \<Rightarrow> event list \<Rightarrow> 's \<Rightarrow> step list \<Rightarrow> 's process_result" where
  "uncaught e evs w started =
     (case e of
        Exception msg \<Rightarrow>
          \<lparr>exit_status = 1, error_reports = evs @ [InterpreterTraceback (Exception msg)],
           final_world = w, steps_run = started\<rparr>
      | SystemExit c \<Rightarrow>
          \<lparr>exit_status = c, error_reports = evs, final_world = w, steps_run = started\<rparr>)"

text \<open>
  The script: the imports run first; the output directory is \<open>sys.argv[1]\<close> when there
  is one, the default otherwise; the exit status is what \<open>main\<close> returns.
\<close>

definition output_dir_arg :: "string list \<Rightarrow> string" where
  "output_dir_arg argv = (if length argv > 1 then argv ! 1 else DEFAULT_OUTPUT_DIR)"

definition run_script :: "'s environment \<Rightarrow> string list \<Rightarrow> 's \<Rightarrow> 's process_result" where
  "run_script env argv w =
     (case import_modules env w of
        (Some e, w0) \<Rightarrow> uncaught e [] w0 []
      | (None, w0) \<Rightarrow>
          (let output_dir = output_dir_arg argv;
               r = cli_main env output_dir w0
           in case outcome r of
                Returned exit_code \<Rightarrow>
                  \<lparr>exit_status = exit_code, error_reports = reports r, final_world = world r,
                   steps_run = attempted r\<rparr>
              | Raised e \<Rightarrow> uncaught e (reports r) (world r) (attempted r)))"

definition handler_logged :: "event list \<Rightarrow> bool" where
  "handler_logged evs = (\<exists>e \<in> set evs. case e of HandlerMessage _ \<Rightarrow> True | _ \<Rightarrow> False)"

section \<open>Example data\<close>

definition example_pm25 :: grid where
  "example_pm25 =
     \<lparr>lat = [10, 20], lon = [0, 90, 200, 350],
      vals = [[Fin 6, Fin 4000, Fin 3, Fin 4], [Fin 0, Fin (- 2), Fin 7, NaN]]\<rparr>"

definition example_baseline :: grid where
  "example_baseline = \<lparr>lat = [10], lon = [20], vals = [[Fin 4]]\<rparr>"

definition example_nofire :: grid where
  "example_nofire = \<lparr>lat = [10], lon = [20], vals = [[Fin 10]]\<rparr>"

definition example_field :: grid where
  "example_field =
     \<lparr>lat = [0, 60], lon = [0, 30, 120],
      vals = [[Fin 1, Fin 2, Fin 3], [Fin 4, Fin 8, Fin 6]]\<rparr>"

definition example_constant :: grid where
  "example_constant =
     \<lparr>lat = [0, 60], lon = [0, 30, 120],
      vals = [[Fin 5, Fin 5, Fin 5], [Fin 5, Fin 5, Fin 5]]\<rparr>"

text \<open>A data directory in which every variable has a time dimension of length zero.\<close>

definition empty_time_dataset :: dataset where
  "empty_time_dataset name =
     (if name = ''pm25'' then Some (DA_time [10, 20] [0, 200] []) else None)"

definition empty_time_fs :: filesystem where
  "empty_time_fs path =
     (if starts_with ''./data/CESM_09x125_PM25_'' path then Some empty_time_dataset else None)"

definition nan_field :: grid where
  "nan_field = \<lparr>lat = [10, 20], lon = [- 160, 0], vals = [[NaN, NaN], [NaN, NaN]]\<rparr>"

text \<open>A data directory with all ten files: the standard runs have two time steps, the
  no-fire runs have one.\<close>

definition example_baseline_dataset :: dataset where
  "example_baseline_dataset name =
     (if name = ''pm25''
      then Some (DA_time [10, 20] [0, 200]
                   [[[Fin 10, Fin 20], [Fin 30, Fin 40]], [[Fin 14, Fin 24], [Fin 34, Fin 44]]])
      else None)"

definition example_nofire_dataset :: dataset where
  "example_nofire_dataset name =
     (if name = ''pm25''
      then Some (DA_time [10, 20] [0, 200] [[[Fin 4, Fin 30], [Fin 2, Fin 2]]])
      else None)"

definition example_fs :: filesystem where
  "example_fs path =
     (if starts_with ''./data/CESM_09x125_PM25_'' path
      then (if ends_with ''_NoFire.nc'' path then Some example_nofire_dataset
            else Some example_baseline_dataset)
      else None)"

definition example_loaded :: "grid \<times> grid \<times> grid" where
  "example_loaded =
     (\<lparr>lat = [10, 20], lon = [- 160, 0], vals = [[Fin (- 8), Fin 8], [Fin 40, Fin 30]]\<rparr>,
      \<lparr>lat = [10, 20], lon = [- 160, 0], vals = [[Fin 22, Fin 12], [Fin 42, Fin 32]]\<rparr>,
      \<lparr>lat = [10, 20], lon = [- 160, 0], vals = [[Fin 30, Fin 4], [Fin 2, Fin 2]]\<rparr>)"

text \<open>Worlds for the command line model: the state is the list of figures saved so far.\<close>

fun figure_of :: "step \<Rightarrow> string list" where
  "figure_of (CreatePm25Map f) = [f]"
| "figure_of (CreateScenarioComparisonMap f) = [f]"
| "figure_of (CreateSolarPotentialMap f) = [f]"
| "figure_of (CreateRegionalBarChart f) = [f]"
| "figure_of _ = []"

text \<open>An output directory that cannot be created.\<close>

definition unwritable_env :: "string list environment" where
  "unwritable_env =
     \<lparr>import_modules = (\<lambda>w. (None, w)),
      set_output_directory = (\<lambda>out_dir w. (Some (Exception ''PermissionError''), w)),
      exec = (\<lambda>st w. (None, w @ figure_of st))\<rparr>"

text \<open>A run in which saving the second map fails.\<close>

definition failing_env :: "string list environment" where
  "failing_env =
     \<lparr>import_modules = (\<lambda>w. (None, w)),
      set_output_directory = (\<lambda>out_dir w. (None, w)),
      exec = (\<lambda>st w. if st = CreatePm25Map ''wildfire_pm25_2050_rcp45.png''
                       then (Some (Exception ''OSError''), w) else (None, w @ figure_of st))\<rparr>"

section \<open>Facts about the cell arithmetic\<close>

lemma uncapped_change_Fin: "uncapped_change (Fin p) = Fin (- 0.48 * p / 17.71 * 100)"
  by (simp add: uncapped_change_def)

lemma solar_cell_Fin:
  "solar_cell (Fin p) =
     (if - 0.48 * p / 17.71 * 100 < - 100 then Fin (- 100) else Fin (- 0.48 * p / 17.71 * 100))"
  by (simp add: solar_cell_def uncapped_change_Fin Let_def)

lemma map_cells_nth:
  "i < length (vals g) \<Longrightarrow> j < length (vals g ! i) \<Longrightarrow> vals (map_cells f g) ! i ! j = f (vals g ! i ! j)"
  by (simp add: map_cells_def)

section \<open>Solar potential model: the clamp\<close>

text \<open>
  C1. At every cell holding a finite PM2.5 value \<open>p\<close>,
  \<open>calculate_solar_potential_change\<close> returns \<open>-0.48 * p / 17.71 * 100\<close> when that
  quantity is at least \<open>-100\<close>, and \<open>-100\<close> when it is below \<open>-100\<close>; the coordinates
  are untouched.
\<close>

theorem solar_potential_clamp:
  assumes "i < length (vals g)" and "j < length (vals g ! i)" and "vals g ! i ! j = Fin p"
  shows "(- 100 \<le> - 0.48 * p / 17.71 * 100 \<longrightarrow>
            vals (calculate_solar_potential_change g) ! i ! j = Fin (- 0.48 * p / 17.71 * 100))
       \<and> (- 0.48 * p / 17.71 * 100 < - 100 \<longrightarrow>
            vals (calculate_solar_potential_change g) ! i ! j = Fin (- 100))
       \<and> lat (calculate_solar_potential_change g) = lat g
       \<and> lon (calculate_solar_potential_change g) = lon g"
proof -
  have "vals (calculate_solar_potential_change g) ! i ! j = solar_cell (Fin p)"
    using assms by (simp add: calculate_solar_potential_change_def map_cells_nth)
  moreover have "lat (calculate_solar_potential_change g) = lat g"
    and "lon (calculate_solar_potential_change g) = lon g"
    by (simp_all add: calculate_solar_potential_change_def map_cells_def)
  ultimately show ?thesis
    by (simp add: solar_cell_Fin)
qed

text \<open>
  The witness: a cell far above the cap (4000) and an ordinary one (6).
\<close>

theorem solar_potential_clamp_witness:
  "vals example_pm25 ! 0 ! 1 = Fin 4000 \<and>
   vals (calculate_solar_potential_change example_pm25) ! 0 ! 1 = Fin (- 100) \<and>
   vals example_pm25 ! 0 ! 0 = Fin 6 \<and>
   vals (calculate_solar_potential_change example_pm25) ! 0 ! 0 = Fin (- 0.48 * 6 / 17.71 * 100)"
  using solar_potential_clamp [of 0 example_pm25 1 4000]
    solar_potential_clamp [of 0 example_pm25 0 6]
  by (simp add: example_pm25_def)

section \<open>Solar potential model: the range of the result\<close>

text \<open>
  C4, as stated: every cell of a solar potential field computed from a wildfire field
  lies between \<open>-100\<close> and \<open>0\<close>. It fails where the wildfire value is negative: a
  baseline of 4 and a no-fire value of 10 give a wildfire value of \<open>-6\<close> and a solar
  potential change of about \<open>+16.3\<close> percent.
\<close>

theorem solar_potential_above_zero:
  "\<not> within_percent_range
        (vals (calculate_solar_potential_change (da_sub example_baseline example_nofire)) ! 0 ! 0)"
  by (simp add: example_baseline_def example_nofire_def da_sub_def np_sub_def
      calculate_solar_potential_change_def map_cells_def solar_cell_def uncapped_change_def
      within_percent_range_def)

text \<open>
  C4, amended: at every cell holding a finite wildfire value \<open>p\<close> the solar potential
  change is a finite value not below \<open>-100\<close>; it is at most \<open>0\<close> when \<open>p\<close> is not
  negative, and positive when \<open>p\<close> is negative (there is no upper clamp).
\<close>

theorem solar_potential_floor:
  assumes "i < length (vals w)" and "j < length (vals w ! i)" and "vals w ! i ! j = Fin p"
  shows "\<exists>r. vals (calculate_solar_potential_change w) ! i ! j = Fin r \<and> - 100 \<le> r
             \<and> (0 \<le> p \<longrightarrow> r \<le> 0) \<and> (p < 0 \<longrightarrow> 0 < r)"
proof -
  have "vals (calculate_solar_potential_change w) ! i ! j = solar_cell (Fin p)"
    using assms by (simp add: calculate_solar_potential_change_def map_cells_nth)
  moreover have "0 \<le> p \<Longrightarrow> - 0.48 * p / 17.71 * 100 \<le> 0"
    by (simp add: divide_nonpos_nonneg mult_nonpos_nonneg)
  moreover have "p < 0 \<Longrightarrow> 0 < - 0.48 * p / 17.71 * 100"
    by (simp add: field_simps)
  ultimately show ?thesis
    by (auto simp add: solar_cell_Fin)
qed

theorem solar_potential_floor_witness:
  "vals example_pm25 ! 1 ! 1 = Fin (- 2) \<and>
   (\<exists>r. vals (calculate_solar_potential_change example_pm25) ! 1 ! 1 = Fin r \<and> - 100 \<le> r \<and> 0 < r)"
  using solar_potential_floor [of 1 example_pm25 1 "- 2"]
  by (simp add: example_pm25_def)

section \<open>Longitude normalizer: facts\<close>

lemma set_argsort: "set (argsort ks) = {0..<length ks}"
  by (simp add: argsort_def)

lemma length_argsort: "length (argsort ks) = length ks"
  by (simp add: argsort_def)

lemma distinct_argsort: "distinct (argsort ks)"
  by (simp add: argsort_def)

lemma sorted_argsort: "sorted (map (\<lambda>k. ks ! k) (argsort ks))"
  by (simp add: argsort_def)

lemma argsort_sorted: "sorted ks \<Longrightarrow> argsort ks = [0..<length ks]"
  unfolding argsort_def by (rule sort_key_id_if_sorted) (simp add: map_nth)

lemma lon_fix_lon:
  "lon (fix_lon g) = map (\<lambda>k. map longitude_adjusted (lon g) ! k) (argsort (map longitude_adjusted (lon g)))"
  by (simp add: fix_lon_def Let_def)

lemma vals_fix_lon:
  "vals (fix_lon g) =
     map (\<lambda>row. map (\<lambda>k. row ! k) (argsort (map longitude_adjusted (lon g)))) (vals g)"
  by (simp add: fix_lon_def Let_def)

lemma lat_fix_lon: "lat (fix_lon g) = lat g"
  by (simp add: fix_lon_def Let_def)

lemma length_lon_fix_lon: "length (lon (fix_lon g)) = length (lon g)"
  by (simp add: lon_fix_lon length_argsort)

lemma sorted_lon_fix_lon: "sorted (lon (fix_lon g))"
  unfolding lon_fix_lon by (rule sorted_argsort)

lemma set_map_nth_argsort: "set (map (\<lambda>k. ks ! k) (argsort ks)) = set ks"
proof -
  have "set (map (\<lambda>k. ks ! k) (argsort ks)) = (\<lambda>k. ks ! k) ` {0..<length ks}"
    by (simp add: set_argsort)
  also have "\<dots> = set (map (\<lambda>k. ks ! k) [0..<length ks])"
    by simp
  also have "\<dots> = set ks"
    by (simp only: map_nth)
  finally show ?thesis .
qed

lemma set_lon_fix_lon: "set (lon (fix_lon g)) = longitude_adjusted ` set (lon g)"
  unfolding lon_fix_lon by (simp only: set_map_nth_argsort) simp

lemma distinct_map_nth_argsort:
  assumes "distinct ks"
  shows "distinct (map (\<lambda>k. ks ! k) (argsort ks))"
proof -
  have "inj_on (\<lambda>k. ks ! k) {0..<length ks}"
    using assms by (auto simp add: inj_on_def nth_eq_iff_index_eq)
  then show ?thesis
    by (simp add: distinct_map distinct_argsort set_argsort)
qed

lemma longitude_adjusted_inj:
  assumes "\<forall>v\<in>set xs. 0 \<le> v \<and> v < 360"
  shows "inj_on longitude_adjusted (set xs)"
proof (rule inj_onI)
  fix a b
  assume "a \<in> set xs" and "b \<in> set xs" and "longitude_adjusted a = longitude_adjusted b"
  moreover from assms \<open>a \<in> set xs\<close> have "0 \<le> a" and "a < 360" by auto
  moreover from assms \<open>b \<in> set xs\<close> have "0 \<le> b" and "b < 360" by auto
  ultimately show "a = b"
    by (simp add: longitude_adjusted_def split: if_splits)
qed

lemma wf_fix_lon: "wf_grid g \<Longrightarrow> wf_grid (fix_lon g)"
  by (simp add: wf_grid_def lat_fix_lon vals_fix_lon length_lon_fix_lon length_argsort
      list_all_iff)

lemma cell_at_fix_lon:
  assumes dist: "distinct (map longitude_adjusted (lon g))"
    and i: "i < length (vals g)" and len: "length (vals g ! i) = length (lon g)"
    and j: "j < length (lon g)"
  shows "cell_at (fix_lon g) i (longitude_adjusted (lon g ! j)) = Some (vals g ! i ! j)"
proof -
  define adjusted where "adjusted = map longitude_adjusted (lon g)"
  define order where "order = argsort adjusted"
  define row where "row = vals g ! i"
  have "j \<in> set order"
    using j by (simp add: order_def adjusted_def set_argsort)
  then obtain k where k: "k < length order" and kj: "order ! k = j"
    by (auto simp add: in_set_conv_nth)
  have lon': "lon (fix_lon g) = map (\<lambda>k. adjusted ! k) order"
    by (simp add: lon_fix_lon order_def adjusted_def)
  have row': "vals (fix_lon g) ! i = map (\<lambda>k. row ! k) order"
    using i by (simp add: vals_fix_lon order_def adjusted_def row_def)
  have "distinct (map (\<lambda>k. adjusted ! k) order)"
    unfolding order_def using dist by (simp add: distinct_map_nth_argsort adjusted_def)
  then have "map_of (zip (map (\<lambda>k. adjusted ! k) order) (map (\<lambda>k. row ! k) order))
               (map (\<lambda>k. adjusted ! k) order ! k) = Some (map (\<lambda>k. row ! k) order ! k)"
    using k by (intro map_of_zip_nth) simp_all
  then show ?thesis
    using k kj j by (simp add: cell_at_def lon' row' adjusted_def row_def)
qed

section \<open>Longitude normalizer: relabel and reorder\<close>

text \<open>
  C2. For a grid whose longitudes are distinct and lie in \<open>[0, 360)\<close>, the longitudes
  of \<open>fix_lon\<close>'s result are strictly ascending, their set is the image of the input
  longitudes under \<open>v \<mapsto> (v if v \<le> 180 else v - 360)\<close>, the latitudes are unchanged,
  and the cell found at a latitude row under the new label of an input longitude is
  the cell the input has at that row and that longitude.
\<close>

theorem fix_lon_normalizes:
  assumes wf: "wf_grid g" and dist: "distinct (lon g)"
    and range: "\<forall>v\<in>set (lon g). 0 \<le> v \<and> v < 360"
  shows "sorted_wrt (<) (lon (fix_lon g))
       \<and> set (lon (fix_lon g)) = (\<lambda>v. if v \<le> 180 then v else v - 360) ` set (lon g)
       \<and> lat (fix_lon g) = lat g
       \<and> wf_grid (fix_lon g)
       \<and> (\<forall>i<length (lat g). \<forall>j<length (lon g).
             cell_at (fix_lon g) i (if lon g ! j \<le> 180 then lon g ! j else lon g ! j - 360)
               = Some (vals g ! i ! j))"
proof -
  have adj: "longitude_adjusted = (\<lambda>v. if v \<le> 180 then v else v - 360)"
    by (rule ext) (simp add: longitude_adjusted_def)
  have d: "distinct (map longitude_adjusted (lon g))"
    using dist longitude_adjusted_inj [OF range] by (simp add: distinct_map)
  then have "distinct (lon (fix_lon g))"
    unfolding lon_fix_lon by (rule distinct_map_nth_argsort)
  then have "sorted_wrt (<) (lon (fix_lon g))"
    by (simp add: strict_sorted_iff sorted_lon_fix_lon)
  moreover have "set (lon (fix_lon g)) = (\<lambda>v. if v \<le> 180 then v else v - 360) ` set (lon g)"
    by (simp only: set_lon_fix_lon adj)
  moreover have "\<forall>i<length (lat g). \<forall>j<length (lon g).
      cell_at (fix_lon g) i (if lon g ! j \<le> 180 then lon g ! j else lon g ! j - 360)
        = Some (vals g ! i ! j)"
  proof (intro allI impI)
    fix i j
    assume i: "i < length (lat g)" and j: "j < length (lon g)"
    from wf i have "i < length (vals g)" and "length (vals g ! i) = length (lon g)"
      by (simp_all add: wf_grid_def list_all_length)
    from cell_at_fix_lon [OF d this j] show
      "cell_at (fix_lon g) i (if lon g ! j \<le> 180 then lon g ! j else lon g ! j - 360)
         = Some (vals g ! i ! j)"
      by (simp only: adj)
  qed
  ultimately show ?thesis
    using wf by (simp add: lat_fix_lon wf_fix_lon)
qed

theorem fix_lon_normalizes_witness:
  "wf_grid example_pm25 \<and> distinct (lon example_pm25)
   \<and> list_all (\<lambda>v. 0 \<le> v \<and> v < 360) (lon example_pm25)
   \<and> sorted_wrt (<) (lon (fix_lon example_pm25))
   \<and> cell_at (fix_lon example_pm25) 0 (- 160) = Some (Fin 3)"
proof -
  have h: "wf_grid example_pm25" "distinct (lon example_pm25)"
    "\<forall>v\<in>set (lon example_pm25). 0 \<le> v \<and> v < 360"
    by (simp_all add: example_pm25_def wf_grid_def)
  from fix_lon_normalizes [OF h]
  have "sorted_wrt (<) (lon (fix_lon example_pm25))"
    and "\<forall>i<length (lat example_pm25). \<forall>j<length (lon example_pm25).
          cell_at (fix_lon example_pm25) i
            (if lon example_pm25 ! j \<le> 180 then lon example_pm25 ! j
             else lon example_pm25 ! j - 360) = Some (vals example_pm25 ! i ! j)"
    by simp_all
  from this(1) this(2) [rule_format, of 0 2] h show ?thesis
    by (simp add: example_pm25_def list_all_iff)
qed

section \<open>Longitude normalizer: applying it twice\<close>

lemma longitude_adjusted_id: "v \<le> 180 \<Longrightarrow> longitude_adjusted v = v"
  by (simp add: longitude_adjusted_def)

lemma fix_lon_of_normalized:
  assumes "sorted (lon g)" and "\<forall>v\<in>set (lon g). v \<le> 180"
    and "\<forall>row\<in>set (vals g). length row = length (lon g)"
  shows "fix_lon g = g"
proof -
  have a: "map longitude_adjusted (lon g) = lon g"
    using assms(2) by (simp add: map_idI longitude_adjusted_id)
  have o: "argsort (lon g) = [0..<length (lon g)]"
    using assms(1) by (rule argsort_sorted)
  have "map (\<lambda>row. map (\<lambda>k. row ! k) [0..<length (lon g)]) (vals g) = vals g"
    using assms(3) by (intro map_idI) (metis map_nth)
  then show ?thesis
    by (simp add: fix_lon_def Let_def a o map_nth)
qed

text \<open>
  C10. Applying \<open>fix_lon\<close> to its own result changes nothing: for every grid whose
  longitudes do not exceed 540, which covers the input convention \<open>[0, 360)\<close> and the
  normalized range \<open>(-180, 180]\<close> (distinct longitudes or not). In particular a well
  formed grid that is normalized already, longitudes ascending and in \<open>(-180, 180]\<close>,
  is left unchanged.
\<close>

theorem fix_lon_idempotent:
  assumes "\<forall>v\<in>set (lon g). v \<le> 540"
  shows "fix_lon (fix_lon g) = fix_lon g
       \<and> (wf_grid g \<and> sorted (lon g) \<and> (\<forall>v\<in>set (lon g). - 180 < v \<and> v \<le> 180) \<longrightarrow>
            fix_lon g = g)"
proof
  show "fix_lon (fix_lon g) = fix_lon g"
  proof (rule fix_lon_of_normalized)
    show "sorted (lon (fix_lon g))"
      by (rule sorted_lon_fix_lon)
    show "\<forall>v\<in>set (lon (fix_lon g)). v \<le> 180"
      using assms by (auto simp add: set_lon_fix_lon longitude_adjusted_def)
    show "\<forall>row\<in>set (vals (fix_lon g)). length row = length (lon (fix_lon g))"
      by (auto simp add: vals_fix_lon length_lon_fix_lon length_argsort)
  qed
  show "wf_grid g \<and> sorted (lon g) \<and> (\<forall>v\<in>set (lon g). - 180 < v \<and> v \<le> 180) \<longrightarrow>
          fix_lon g = g"
  proof
    assume h: "wf_grid g \<and> sorted (lon g) \<and> (\<forall>v\<in>set (lon g). - 180 < v \<and> v \<le> 180)"
    then have "\<forall>row\<in>set (vals g). length row = length (lon g)"
      by (simp add: wf_grid_def list_all_iff)
    with h show "fix_lon g = g"
      by (intro fix_lon_of_normalized) auto
  qed
qed

theorem fix_lon_idempotent_witness:
  "list_all (\<lambda>v. v \<le> 540) (lon example_pm25)
   \<and> lon example_pm25 = [0, 90, 200, 350]
   \<and> lon (fix_lon example_pm25) = [- 160, - 10, 0, 90]
   \<and> fix_lon (fix_lon example_pm25) = fix_lon example_pm25"
proof -
  have h: "\<forall>v\<in>set (lon example_pm25). v \<le> 540"
    by (simp add: example_pm25_def)
  have "lon (fix_lon example_pm25) = [- 160, - 10, 0, 90]"
    by (simp add: example_pm25_def fix_lon_def argsort_def longitude_adjusted_def upt_rec)
  moreover have "lon example_pm25 = [0, 90, 200, 350]"
    by (simp add: example_pm25_def)
  moreover note fix_lon_idempotent [OF h, THEN conjunct1]
  ultimately show ?thesis
    using h by (simp add: list_all_iff)
qed

section \<open>Regional aggregator: facts\<close>

subsection \<open>Slices of ascending coordinates\<close>

lemma takeWhile_index:
  fixes xs :: "real list"
  assumes "sorted xs" and down: "\<And>x y. P y \<Longrightarrow> x \<le> y \<Longrightarrow> P x" and "i < length xs"
  shows "i < length (takeWhile P xs) \<longleftrightarrow> P (xs ! i)"
  using assms(1,3)
proof (induction xs arbitrary: i)
  case Nil
  then show ?case by simp
next
  case (Cons x xs)
  show ?case
  proof (cases "P x")
    case True
    with Cons show ?thesis by (cases i) simp_all
  next
    case False
    from Cons.prems have "x \<le> (x # xs) ! i"
      by (cases i) simp_all
    with False down have "\<not> P ((x # xs) ! i)" by blast
    with False show ?thesis by simp
  qed
qed

lemma searchsorted_left_index:
  "sorted xs \<Longrightarrow> i < length xs \<Longrightarrow> i < searchsorted_left xs lo \<longleftrightarrow> xs ! i < lo"
  unfolding searchsorted_left_def by (rule takeWhile_index) auto

lemma searchsorted_right_index:
  "sorted xs \<Longrightarrow> i < length xs \<Longrightarrow> i < searchsorted_right xs hi \<longleftrightarrow> xs ! i \<le> hi"
  unfolding searchsorted_right_def by (rule takeWhile_index) auto

lemma searchsorted_right_le: "searchsorted_right xs hi \<le> length xs"
  by (simp add: searchsorted_right_def length_takeWhile_le)

lemma slice_indices:
  assumes "sorted xs"
  shows "{i \<in> {0..<length xs}. lo \<le> xs ! i \<and> xs ! i \<le> hi}
           = {searchsorted_left xs lo..<searchsorted_right xs hi}"
proof (rule set_eqI)
  fix i
  show "i \<in> {i \<in> {0..<length xs}. lo \<le> xs ! i \<and> xs ! i \<le> hi}
          \<longleftrightarrow> i \<in> {searchsorted_left xs lo..<searchsorted_right xs hi}"
  proof (cases "i < length xs")
    case True
    from searchsorted_left_index [OF assms True, of lo]
    have "searchsorted_left xs lo \<le> i \<longleftrightarrow> lo \<le> xs ! i"
      by (simp add: not_less [symmetric])
    with searchsorted_right_index [OF assms True, of hi] True show ?thesis
      by simp
  next
    case False
    with searchsorted_right_le [of xs hi] show ?thesis
      by simp
  qed
qed

lemma py_slice_nth:
  assumes "stop \<le> length xs"
  shows "py_slice start stop xs = map (\<lambda>i. xs ! i) [start..<stop]"
proof (rule map_upt_eqI [symmetric])
  show "length (py_slice start stop xs) = stop - start"
    using assms by (simp add: py_slice_def)
  show "py_slice start stop xs ! i = xs ! (start + i)" if "i < length (py_slice start stop xs)" for i
    using that assms by (simp add: py_slice_def)
qed

lemma sum_list_slice:
  fixes h :: "nat \<Rightarrow> real"
  assumes "sorted xs"
  shows "(\<Sum>i\<leftarrow>[0..<length xs]. if lo \<le> xs ! i \<and> xs ! i \<le> hi then h i else 0)
           = (\<Sum>i\<leftarrow>[searchsorted_left xs lo..<searchsorted_right xs hi]. h i)"
proof -
  have "(\<Sum>i\<leftarrow>[0..<length xs]. if lo \<le> xs ! i \<and> xs ! i \<le> hi then h i else 0)
          = (\<Sum>i\<in>{0..<length xs}. if lo \<le> xs ! i \<and> xs ! i \<le> hi then h i else 0)"
    by (simp add: interv_sum_list_conv_sum_set_nat)
  also have "\<dots> = sum h {i \<in> {0..<length xs}. lo \<le> xs ! i \<and> xs ! i \<le> hi}"
    by (rule sum.inter_filter [symmetric]) simp
  also have "\<dots> = sum h {searchsorted_left xs lo..<searchsorted_right xs hi}"
    by (simp only: slice_indices [OF assms])
  also have "\<dots> = (\<Sum>i\<leftarrow>[searchsorted_left xs lo..<searchsorted_right xs hi]. h i)"
    by (simp add: interv_sum_list_conv_sum_set_nat)
  finally show ?thesis .
qed

subsection \<open>Sums of finite cells\<close>

lemma foldl_np_add_Fin: "foldl np_add (Fin a) (map Fin xs) = Fin (a + sum_list xs)"
  by (induction xs arbitrary: a) (simp_all add: add.assoc)

lemma np_nansum_Fin: "np_nansum (map Fin xs) = Fin (sum_list xs)"
proof -
  have "filter (\<lambda>x. \<not> isnan x) (map Fin xs) = map Fin xs"
    by (induction xs) (simp_all add: isnan_def)
  then show ?thesis
    by (simp add: np_nansum_def np_sum_def foldl_np_add_Fin)
qed

lemma sum_list_table:
  fixes f :: "'a \<Rightarrow> 'b \<Rightarrow> real"
  shows "sum_list (concat (map (\<lambda>i. map (f i) js) is)) = (\<Sum>i\<leftarrow>is. \<Sum>j\<leftarrow>js. f i j)"
  by (induction "is") simp_all

lemma np_nansum_table:
  "np_nansum (concat (map (\<lambda>i. map (\<lambda>j. Fin (f i j)) js) is))
     = Fin (\<Sum>i\<leftarrow>is. \<Sum>j\<leftarrow>js. f i j)"
proof -
  have "concat (map (\<lambda>i. map (\<lambda>j. Fin (f i j)) js) is)
          = map Fin (concat (map (\<lambda>i. map (f i) js) is))"
    by (simp add: map_concat comp_def)
  then show ?thesis
    by (simp add: np_nansum_Fin sum_list_table)
qed

subsection \<open>The selected window\<close>

lemma finite_cell:
  assumes "wf_grid g" and "all_finite g" and "i < length (lat g)" and "j < length (lon g)"
  shows "vals g ! i ! j = Fin (fin_value (vals g ! i ! j))"
proof -
  from assms have "isfinite (vals g ! i ! j)"
    by (simp add: wf_grid_def all_finite_def list_all_length)
  then show ?thesis
    by (cases "vals g ! i ! j") (simp_all add: isfinite_def fin_value_def)
qed

lemma sel_region_ranges:
  fixes g :: grid and rb :: region_bounds
  assumes wf: "wf_grid g"
  defines "a \<equiv> searchsorted_left (lat g) (lat_min rb)"
    and "b \<equiv> searchsorted_right (lat g) (lat_max rb)"
    and "c \<equiv> searchsorted_left (lon g) (lon_min rb)"
    and "d \<equiv> searchsorted_right (lon g) (lon_max rb)"
  shows "lat (sel_region rb g) = map (\<lambda>i. lat g ! i) [a..<b]"
    and "lon (sel_region rb g) = map (\<lambda>j. lon g ! j) [c..<d]"
    and "vals (sel_region rb g) = map (\<lambda>i. map (\<lambda>j. vals g ! i ! j) [c..<d]) [a..<b]"
proof -
  have b: "b \<le> length (lat g)" and d: "d \<le> length (lon g)"
    by (simp_all add: b_def d_def searchsorted_right_le)
  from wf have len: "length (vals g) = length (lat g)"
    and rows: "\<And>i. i < length (lat g) \<Longrightarrow> length (vals g ! i) = length (lon g)"
    by (simp_all add: wf_grid_def list_all_length)
  show "lat (sel_region rb g) = map (\<lambda>i. lat g ! i) [a..<b]"
    using b by (simp add: sel_region_def Let_def py_slice_nth a_def b_def)
  show "lon (sel_region rb g) = map (\<lambda>j. lon g ! j) [c..<d]"
    using d by (simp add: sel_region_def Let_def py_slice_nth c_def d_def)
  have "vals (sel_region rb g) = map (py_slice c d) (map (\<lambda>i. vals g ! i) [a..<b])"
    using b len by (simp add: sel_region_def Let_def py_slice_nth a_def b_def c_def d_def)
  also have "\<dots> = map (\<lambda>i. map (\<lambda>j. vals g ! i ! j) [c..<d]) [a..<b]"
    using b d rows by (simp add: py_slice_nth)
  finally show "vals (sel_region rb g) = map (\<lambda>i. map (\<lambda>j. vals g ! i ! j) [c..<d]) [a..<b]" .
qed

lemma map2_same: "map2 f (map g xs) (map h xs) = map (\<lambda>x. f (g x) (h x)) xs"
  by (induction xs) simp_all

lemma regional_mean_ranges:
  fixes g :: grid and rb :: region_bounds
  assumes wf: "wf_grid g" and fin: "all_finite g"
  defines "a \<equiv> searchsorted_left (lat g) (lat_min rb)"
    and "b \<equiv> searchsorted_right (lat g) (lat_max rb)"
    and "c \<equiv> searchsorted_left (lon g) (lon_min rb)"
    and "d \<equiv> searchsorted_right (lon g) (lon_max rb)"
  shows "regional_mean rb g =
           np_div (Fin (\<Sum>i\<leftarrow>[a..<b]. \<Sum>j\<leftarrow>[c..<d].
                          fin_value (vals g ! i ! j) * cos (lat g ! i * pi / 180)))
                  (Fin (\<Sum>i\<leftarrow>[a..<b]. \<Sum>j\<leftarrow>[c..<d]. cos (lat g ! i * pi / 180)))"
proof -
  have b: "b \<le> length (lat g)" and d: "d \<le> length (lon g)"
    by (simp_all add: b_def d_def searchsorted_right_le)
  define W where "W i = cos (lat g ! i * pi / 180)" for i
  define R where "R i j = fin_value (vals g ! i ! j)" for i j
  have rows: "vals (sel_region rb g) = map (\<lambda>i. map (\<lambda>j. Fin (R i j)) [c..<d]) [a..<b]"
    unfolding sel_region_ranges(3) [OF wf, of rb, folded a_def b_def c_def d_def]
    using b d finite_cell [OF wf fin] by (auto simp add: R_def)
  have weights: "map (\<lambda>la. cos (deg2rad la)) (lat (sel_region rb g)) = map W [a..<b]"
    unfolding sel_region_ranges(1) [OF wf, of rb, folded a_def b_def]
    by (simp add: W_def deg2rad_def)
  have factors:
    "map2 (\<lambda>row w. map (\<lambda>_. np_mul (Fin 1) (Fin w)) row) (vals (sel_region rb g))
        (map (\<lambda>la. cos (deg2rad la)) (lat (sel_region rb g)))
      = map (\<lambda>i. map (\<lambda>j. Fin (W i)) [c..<d]) [a..<b]"
    unfolding rows weights by (simp add: map2_same comp_def)
  have products:
    "map2 (map2 np_mul) (map (\<lambda>i. map (\<lambda>j. Fin (R i j)) [c..<d]) [a..<b])
        (map (\<lambda>i. map (\<lambda>j. Fin (W i)) [c..<d]) [a..<b])
      = map (\<lambda>i. map (\<lambda>j. Fin (R i j * W i)) [c..<d]) [a..<b]"
    by (simp add: map2_same)
  show ?thesis
    unfolding regional_mean_def Let_def factors
    unfolding rows products np_nansum_table
    by (simp add: W_def R_def)
qed

lemma window_row:
  fixes f :: "nat \<Rightarrow> real"
  shows "(\<Sum>j\<leftarrow>js. if in_window rb la (lo j) then f j else 0) =
           (if lat_min rb \<le> la \<and> la \<le> lat_max rb
            then (\<Sum>j\<leftarrow>js. if lon_min rb \<le> lo j \<and> lo j \<le> lon_max rb then f j else 0)
            else 0)"
  by (induction js) (simp_all add: in_window_def)

lemma window_sum_ranges:
  assumes "sorted (lat g)" and "sorted (lon g)"
  shows "window_sum rb g f =
           (\<Sum>i\<leftarrow>[searchsorted_left (lat g) (lat_min rb)..<searchsorted_right (lat g) (lat_max rb)].
              \<Sum>j\<leftarrow>[searchsorted_left (lon g) (lon_min rb)..<searchsorted_right (lon g) (lon_max rb)].
                f i j)"
  unfolding window_sum_def window_row
  by (simp only: sum_list_slice [OF assms(1)] sum_list_slice [OF assms(2)])

lemma regional_mean_spec:
  assumes "wf_grid g" and "all_finite g" and "sorted (lat g)" and "sorted (lon g)"
  shows "regional_mean rb g = spec_weighted_mean rb g"
  by (simp only: regional_mean_ranges [OF assms(1,2)] spec_weighted_mean_def
      window_sum_ranges [OF assms(3,4)])


lemma lookup_regional_means:
  assumes "map_of regions region_name = Some rb" and "map_of data_dict data_name = Some g"
  shows "\<exists>row. map_of (calculate_regional_means data_dict) region_name = Some row
             \<and> map_of row data_name = Some (regional_mean rb g)"
  using assms by (simp add: calculate_regional_means_def map_of_map)

lemma region_names:
  "map fst (calculate_regional_means data_dict) =
     [''North America'', ''South America'', ''Europe'', ''Africa'', ''Asia'', ''Australia'']"
  by (simp add: calculate_regional_means_def regions_def)

lemma region_latitudes:
  assumes "map_of regions region_name = Some rb"
  shows "- 90 < lat_min rb \<and> lat_max rb < 90"
  using assms by (auto simp add: regions_def split: if_splits)

lemma cos_latitude_pos:
  fixes la :: real
  assumes "- 90 < la" and "la < 90"
  shows "0 < cos (la * pi / 180)"
proof (rule cos_gt_zero_pi)
  from mult_strict_right_mono [OF assms(1) pi_gt_zero]
  show "- (pi / 2) < la * pi / 180" by simp
  from mult_strict_right_mono [OF assms(2) pi_gt_zero]
  show "la * pi / 180 < pi / 2" by simp
qed

lemma sum_list_upt_pos:
  fixes f :: "nat \<Rightarrow> real"
  assumes "a < b" and "\<And>i. a \<le> i \<Longrightarrow> i < b \<Longrightarrow> 0 < f i"
  shows "0 < (\<Sum>i\<leftarrow>[a..<b]. f i)"
proof -
  have "0 < sum f {a..<b}"
    using assms by (intro sum_pos) auto
  then show ?thesis
    by (simp add: interv_sum_list_conv_sum_set_nat)
qed

lemma regional_mean_constant:
  fixes g :: grid and rb :: region_bounds
  assumes region: "map_of regions region_name = Some rb"
    and wf: "wf_grid g" and asc: "sorted (lat g)"
    and const: "list_all (list_all (\<lambda>x. x = Fin c)) (vals g)"
    and nonempty: "lat (sel_region rb g) \<noteq> []" "lon (sel_region rb g) \<noteq> []"
  shows "regional_mean rb g = Fin c"
proof -
  define a where "a = searchsorted_left (lat g) (lat_min rb)"
  define b where "b = searchsorted_right (lat g) (lat_max rb)"
  define k where "k = searchsorted_left (lon g) (lon_min rb)"
  define d where "d = searchsorted_right (lon g) (lon_max rb)"
  define W where "W i = cos (lat g ! i * pi / 180)" for i
  define S where "S = (\<Sum>i\<leftarrow>[a..<b]. \<Sum>j\<leftarrow>[k..<d]. W i)"
  have b: "b \<le> length (lat g)" and d: "d \<le> length (lon g)"
    by (simp_all add: b_def d_def searchsorted_right_le)
  from nonempty have ab: "a < b" and kd: "k < d"
    by (simp_all add: sel_region_ranges [OF wf] a_def b_def k_def d_def)
  have "isfinite x" if "x = Fin c" for x
    using that by (simp add: isfinite_def)
  with const have fin: "all_finite g"
    unfolding all_finite_def by (auto elim!: list.pred_mono_strong)
  have cell: "fin_value (vals g ! i ! j) = c" if "i < b" and "j < d" for i j
  proof -
    from that b d wf have "i < length (vals g)" and "j < length (vals g ! i)"
      by (simp_all add: wf_grid_def list_all_length)
    with const have "vals g ! i ! j = Fin c"
      by (simp add: list_all_length)
    then show ?thesis by (simp add: fin_value_def)
  qed
  have W_pos: "0 < W i" if "a \<le> i" and "i < b" for i
  proof -
    from that b have i: "i < length (lat g)" by simp
    from that have "lat_min rb \<le> lat g ! i" and "lat g ! i \<le> lat_max rb"
      using searchsorted_left_index [OF asc i, of "lat_min rb"]
        searchsorted_right_index [OF asc i, of "lat_max rb"]
      by (simp_all add: a_def b_def not_less [symmetric])
    with region_latitudes [OF region] show ?thesis
      unfolding W_def by (intro cos_latitude_pos) simp_all
  qed
  have "0 < S"
    unfolding S_def
  proof (rule sum_list_upt_pos [OF ab])
    fix i assume "a \<le> i" and "i < b"
    then have "0 < W i" by (rule W_pos)
    with kd show "0 < (\<Sum>j\<leftarrow>[k..<d]. W i)"
      by (intro sum_list_upt_pos) simp_all
  qed
  have "(\<Sum>i\<leftarrow>[a..<b]. \<Sum>j\<leftarrow>[k..<d]. fin_value (vals g ! i ! j) * W i)
          = (\<Sum>i\<leftarrow>[a..<b]. \<Sum>j\<leftarrow>[k..<d]. c * W i)"
    by (intro arg_cong [where f = sum_list] map_cong refl) (simp add: cell)
  also have "\<dots> = c * S"
    by (simp add: S_def sum_list_const_mult)
  finally have "regional_mean rb g = np_div (Fin (c * S)) (Fin S)"
    unfolding regional_mean_ranges [OF wf fin, of rb, folded a_def b_def k_def d_def]
    by (simp add: W_def S_def)
  with \<open>0 < S\<close> show ?thesis
    by simp
qed

section \<open>Regional aggregator: the weighted mean\<close>

text \<open>
  C3. For every one of the six regions and every grid of the mapping (well formed, with
  ascending coordinates and finite cells), the entry of \<open>calculate_regional_means\<close>
  for that region and that grid is the sum of value times \<open>cos(lat in radians)\<close> over
  the cells whose latitude and longitude lie within the bounds, ends included, divided
  by the sum of the cosines over the same cells; the result has one row per region.
\<close>

theorem calculate_regional_means_weighted:
  assumes "map_of regions region_name = Some rb" and "map_of data_dict data_name = Some g"
    and "wf_grid g" and "all_finite g" and "sorted (lat g)" and "sorted (lon g)"
  shows "(\<exists>row. map_of (calculate_regional_means data_dict) region_name = Some row
              \<and> map_of row data_name = Some (spec_weighted_mean rb g))
       \<and> map fst (calculate_regional_means data_dict) =
           [''North America'', ''South America'', ''Europe'', ''Africa'', ''Asia'', ''Australia'']"
  using lookup_regional_means [OF assms(1,2)] regional_mean_spec [OF assms(3-6), of rb]
  by (simp add: region_names)

theorem calculate_regional_means_weighted_witness:
  "map_of regions ''Europe'' = Some \<lparr>lat_min = 35, lat_max = 70, lon_min = - 10, lon_max = 40\<rparr>
   \<and> wf_grid example_field \<and> all_finite example_field
   \<and> sorted (lat example_field) \<and> sorted (lon example_field)
   \<and> spec_weighted_mean \<lparr>lat_min = 35, lat_max = 70, lon_min = - 10, lon_max = 40\<rparr> example_field
       = Fin 6
   \<and> (\<exists>row. map_of (calculate_regional_means [(''2000 Baseline'', example_field)]) ''Europe''
                = Some row
            \<and> map_of row ''2000 Baseline'' = Some (Fin 6))"
proof -
  have r: "map_of regions ''Europe''
             = Some \<lparr>lat_min = 35, lat_max = 70, lon_min = - 10, lon_max = 40\<rparr>"
    by (simp add: regions_def)
  have d: "map_of [(''2000 Baseline'', example_field)] ''2000 Baseline'' = Some example_field"
    by simp
  have h: "wf_grid example_field" "all_finite example_field"
    "sorted (lat example_field)" "sorted (lon example_field)"
    by (simp_all add: example_field_def wf_grid_def all_finite_def isfinite_def)
  have v: "spec_weighted_mean \<lparr>lat_min = 35, lat_max = 70, lon_min = - 10, lon_max = 40\<rparr>
             example_field = Fin 6"
    by (simp add: spec_weighted_mean_def window_sum_def in_window_def example_field_def upt_rec
        fin_value_def cos_60)
  from calculate_regional_means_weighted [OF r d h]
  have e: "\<exists>row. map_of (calculate_regional_means [(''2000 Baseline'', example_field)]) ''Europe''
                = Some row
            \<and> map_of row ''2000 Baseline'' = Some (Fin 6)"
    unfolding v by (rule conjunct1)
  show ?thesis
    by (intro conjI r h v e)
qed


section \<open>Regional aggregator: constant fields\<close>

text \<open>
  C8. For every region and every grid (well formed, with ascending latitudes and
  ascending longitudes, the coordinates on which the label slice is the window) that
  holds the same finite value \<open>c\<close> in every cell, if the window selected for the
  region has at least one latitude and one longitude, the regional mean returned by
  \<open>calculate_regional_means\<close> is \<open>c\<close>.
\<close>

theorem constant_field_regional_mean:
  assumes "map_of regions region_name = Some rb" and "map_of data_dict data_name = Some g"
    and "wf_grid g" and "sorted (lat g)" and "sorted (lon g)"
    and "list_all (list_all (\<lambda>x. x = Fin c)) (vals g)"
    and "lat (sel_region rb g) \<noteq> []" and "lon (sel_region rb g) \<noteq> []"
  shows "\<exists>row. map_of (calculate_regional_means data_dict) region_name = Some row
             \<and> map_of row data_name = Some (Fin c)"
  using lookup_regional_means [OF assms(1,2)]
    regional_mean_constant [OF assms(1) assms(3) assms(4) assms(6) assms(7) assms(8)]
  by simp

theorem constant_field_regional_mean_witness:
  "map_of regions ''Africa'' = Some \<lparr>lat_min = - 35, lat_max = 35, lon_min = - 20, lon_max = 55\<rparr>
   \<and> wf_grid example_constant
   \<and> lat (sel_region \<lparr>lat_min = - 35, lat_max = 35, lon_min = - 20, lon_max = 55\<rparr> example_constant) = [0]
   \<and> lon (sel_region \<lparr>lat_min = - 35, lat_max = 35, lon_min = - 20, lon_max = 55\<rparr> example_constant) = [0, 30]
   \<and> (\<exists>row. map_of (calculate_regional_means [(''2050 RCP 4.5'', example_constant)]) ''Africa''
                = Some row
            \<and> map_of row ''2050 RCP 4.5'' = Some (Fin 5))"
proof -
  have r: "map_of regions ''Africa''
             = Some \<lparr>lat_min = - 35, lat_max = 35, lon_min = - 20, lon_max = 55\<rparr>"
    by (simp add: regions_def)
  have d: "map_of [(''2050 RCP 4.5'', example_constant)] ''2050 RCP 4.5'' = Some example_constant"
    by simp
  have h: "wf_grid example_constant" "sorted (lat example_constant)" "sorted (lon example_constant)"
    "list_all (list_all (\<lambda>x. x = Fin 5)) (vals example_constant)"
    by (simp_all add: example_constant_def wf_grid_def)
  have s: "lat (sel_region \<lparr>lat_min = - 35, lat_max = 35, lon_min = - 20, lon_max = 55\<rparr> example_constant) = [0]"
    "lon (sel_region \<lparr>lat_min = - 35, lat_max = 35, lon_min = - 20, lon_max = 55\<rparr> example_constant) = [0, 30]"
    by (simp_all add: sel_region_def example_constant_def searchsorted_left_def
        searchsorted_right_def py_slice_def)
  have n: "lat (sel_region \<lparr>lat_min = - 35, lat_max = 35, lon_min = - 20, lon_max = 55\<rparr> example_constant) \<noteq> []"
    "lon (sel_region \<lparr>lat_min = - 35, lat_max = 35, lon_min = - 20, lon_max = 55\<rparr> example_constant) \<noteq> []"
    by (simp_all add: s)
  from constant_field_regional_mean [OF r d h n] r h(1) s show ?thesis
    by simp
qed

section \<open>Scenario loader: facts\<close>

lemma str_int_2050: "str_int 2050 = ''2050''"
  by (simp add: str_int_def)

lemma str_int_2100: "str_int 2100 = ''2100''"
  by (simp add: str_int_def)

lemma np_nanmean_Nil: "np_nanmean [] = NaN"
  by (simp add: np_nanmean_def np_sum_def)

lemma filter_isnan_Fin: "filter (\<lambda>x. \<not> isnan x) (map Fin xs) = map Fin xs"
  by (induction xs) (simp_all add: isnan_def)

lemma np_nanmean_Fin:
  assumes "xs \<noteq> []"
  shows "np_nanmean (map Fin xs) = Fin (sum_list xs / real (length xs))"
  using assms by (simp add: np_nanmean_def np_sum_def filter_isnan_Fin foldl_np_add_Fin Let_def)

lemma finite_cells_map:
  assumes "list_all isfinite xs"
  shows "xs = map Fin (map fin_value xs)"
  using assms
proof (induction xs)
  case Nil
  then show ?case by simp
next
  case (Cons x xs)
  then show ?case
    by (cases x) (simp_all add: isfinite_def fin_value_def)
qed

lemma time_average_cell:
  assumes "i < length la" and "j < length lo"
  shows "vals (time_average (DA_time la lo frames)) ! i ! j
           = np_nanmean (map (\<lambda>frame. frame ! i ! j) frames)"
  using assms by simp

lemma concat_rows_nonempty:
  assumes "xs \<noteq> []" and "\<forall>row\<in>set xs. row \<noteq> []"
  shows "concat xs \<noteq> []"
  using assms by (cases xs) auto

lemma length_vals_fix_lon: "length (vals (fix_lon g)) = length (vals g)"
  by (simp add: vals_fix_lon)

lemma length_row_fix_lon:
  assumes "row \<in> set (vals (fix_lon g))"
  shows "length row = length (lon g)"
  using assms by (auto simp add: vals_fix_lon length_argsort)

lemma time_average_shape:
  "lat (time_average (DA_time la lo frames)) = la"
  "lon (time_average (DA_time la lo frames)) = lo"
  "length (vals (time_average (DA_time la lo frames))) = length la"
  by simp_all

lemma vals_loaded_nonempty:
  assumes "la \<noteq> []" and "lo \<noteq> []"
  shows "concat (vals (da_sub (fix_lon (time_average (DA_time la lo fb)))
                              (fix_lon (time_average (DA_time la lo fn))))) \<noteq> []"
proof (rule concat_rows_nonempty)
  define b where "b = fix_lon (time_average (DA_time la lo fb))"
  define n where "n = fix_lon (time_average (DA_time la lo fn))"
  have len: "length (vals b) = length la" "length (vals n) = length la"
    by (simp_all only: b_def n_def length_vals_fix_lon time_average_shape)
  have rows: "length row = length lo" if "row \<in> set (vals b) \<or> row \<in> set (vals n)" for row
    using that length_row_fix_lon [of row "time_average (DA_time la lo fb)"]
      length_row_fix_lon [of row "time_average (DA_time la lo fn)"]
    by (auto simp only: b_def n_def time_average_shape)
  have "length (vals (da_sub b n)) = length la"
    using len by (simp add: da_sub_def)
  with assms(1) show "vals (da_sub (fix_lon (time_average (DA_time la lo fb)))
                          (fix_lon (time_average (DA_time la lo fn)))) \<noteq> []"
    unfolding b_def [symmetric] n_def [symmetric] by auto
  show "\<forall>row\<in>set (vals (da_sub (fix_lon (time_average (DA_time la lo fb)))
                          (fix_lon (time_average (DA_time la lo fn))))). row \<noteq> []"
    unfolding b_def [symmetric] n_def [symmetric]
  proof
    fix row assume "row \<in> set (vals (da_sub b n))"
    then obtain rb rn where "rb \<in> set (vals b)" and "rn \<in> set (vals n)"
      and "row = map2 np_sub rb rn"
      by (auto simp add: da_sub_def dest: set_zip_leftD set_zip_rightD)
    with rows [of rb] rows [of rn] assms(2) show "row \<noteq> []"
      by auto
  qed
qed

lemmas loader_defs =
  os_path_join_def data_dir_def starts_with_def ends_with_def open_dataset_def getitem_def
  fix_lon_def argsort_def longitude_adjusted_def upt_rec da_sub_def np_sub_def print_stats_def
  np_nanmean_def np_sum_def isnan_def Let_def

section \<open>Scenario loader: the time dimension\<close>

text \<open>
  C5, as stated: a variable whose time dimension is present but empty makes the load
  fail with an error. It does not: with such variables in both files
  \<open>process_scenario_data\<close> returns its three fields, every cell of them NaN.
\<close>

theorem empty_time_loads:
  "process_scenario_data empty_time_fs 2050 ''45'' = Inr (nan_field, nan_field, nan_field)"
  by (simp add: process_scenario_data_def str_int_2050 os_path_join_def data_dir_def
      empty_time_fs_def starts_with_def open_dataset_def getitem_def empty_time_dataset_def
      np_nanmean_Nil fix_lon_def argsort_def longitude_adjusted_def upt_rec da_sub_def
      np_sub_def print_stats_def nan_field_def Let_def)


text \<open>
  C5, amended: when both files of a scenario hold a variable with a time dimension on a
  grid with at least one cell, the load succeeds whatever the length of the time
  dimension, and returns the two time means after longitude normalization and their
  difference. The time mean of a cell is NaN when the time dimension is empty, and
  the arithmetic mean over time when it is not empty and the cell is finite at every
  time step (the mean of the values that are not NaN otherwise).
\<close>

theorem loader_collapses_time:
  assumes "fs (os_path_join data_dir
                 (''CESM_09x125_PM25_'' @ str_int year @ ''_RCP'' @ scenario @ ''.nc''))
             = Some baseline_ds"
    and "fs (os_path_join data_dir
               (''CESM_09x125_PM25_'' @ str_int year @ ''_RCP'' @ scenario @ ''_NoFire.nc''))
           = Some nofire_ds"
    and "baseline_ds ''pm25'' = Some (DA_time la lo baseline_frames)"
    and "nofire_ds ''pm25'' = Some (DA_time la lo nofire_frames)"
    and "2 \<le> length scenario" and "la \<noteq> []" and "lo \<noteq> []"
  shows "process_scenario_data fs year scenario =
           Inr (da_sub (fix_lon (time_average (DA_time la lo baseline_frames)))
                       (fix_lon (time_average (DA_time la lo nofire_frames))),
                fix_lon (time_average (DA_time la lo baseline_frames)),
                fix_lon (time_average (DA_time la lo nofire_frames)))
       \<and> (\<forall>frames. \<forall>i<length la. \<forall>j<length lo.
            vals (time_average (DA_time la lo frames)) ! i ! j =
              (if frames = [] then NaN
               else if list_all (\<lambda>frame. isfinite (frame ! i ! j)) frames
               then Fin ((\<Sum>frame\<leftarrow>frames. fin_value (frame ! i ! j)) / real (length frames))
               else np_nanmean (map (\<lambda>frame. frame ! i ! j) frames)))"
proof -
  have "print_stats (da_sub (fix_lon (time_average (DA_time la lo baseline_frames)))
                            (fix_lon (time_average (DA_time la lo nofire_frames)))) = Inr ()"
    using vals_loaded_nonempty [OF assms(6,7)] by (simp add: print_stats_def)
  with assms(1-5) have "process_scenario_data fs year scenario =
           Inr (da_sub (fix_lon (time_average (DA_time la lo baseline_frames)))
                       (fix_lon (time_average (DA_time la lo nofire_frames))),
                fix_lon (time_average (DA_time la lo baseline_frames)),
                fix_lon (time_average (DA_time la lo nofire_frames)))"
    by (simp add: process_scenario_data_def open_dataset_def getitem_def Let_def)
  moreover have "vals (time_average (DA_time la lo frames)) ! i ! j =
              (if frames = [] then NaN
               else if list_all (\<lambda>frame. isfinite (frame ! i ! j)) frames
               then Fin ((\<Sum>frame\<leftarrow>frames. fin_value (frame ! i ! j)) / real (length frames))
               else np_nanmean (map (\<lambda>frame. frame ! i ! j) frames))"
    if "i < length la" and "j < length lo" for frames i j
  proof -
    have "np_nanmean (map (\<lambda>frame. frame ! i ! j) frames)
            = Fin ((\<Sum>frame\<leftarrow>frames. fin_value (frame ! i ! j)) / real (length frames))"
      if ne: "frames \<noteq> []" and fin: "list_all (\<lambda>frame. isfinite (frame ! i ! j)) frames"
    proof -
      define ys where "ys = map (\<lambda>frame. fin_value (frame ! i ! j)) frames"
      from fin have "list_all isfinite (map (\<lambda>frame. frame ! i ! j) frames)"
        by (simp add: list_all_iff)
      from finite_cells_map [OF this]
      have "map (\<lambda>frame. frame ! i ! j) frames = map Fin ys"
        by (simp add: comp_def ys_def)
      moreover from ne have "ys \<noteq> []"
        by (simp add: ys_def)
      then have "np_nanmean (map Fin ys) = Fin (sum_list ys / real (length ys))"
        by (rule np_nanmean_Fin)
      ultimately have "np_nanmean (map (\<lambda>frame. frame ! i ! j) frames)
            = Fin (sum_list ys / real (length ys))"
        by (simp only:)
      then show ?thesis
        by (simp add: ys_def)
    qed
    then show ?thesis
      by (simp only: time_average_cell [OF \<open>i < length la\<close> \<open>j < length lo\<close>])
        (simp add: np_nanmean_Nil)
  qed
  ultimately show ?thesis
    by blast
qed

theorem loader_collapses_time_witness:
  "process_scenario_data example_fs 2050 ''45'' = Inr example_loaded
   \<and> vals (time_average (DA_time [10, 20] [0, 200]
       [[[Fin 10, Fin 20], [Fin 30, Fin 40]], [[Fin 14, Fin 24], [Fin 34, Fin 44]]])) ! 1 ! 0 = Fin 32
   \<and> vals (time_average (DA_time [10, 20] [0, 200] [])) ! 1 ! 0 = NaN"
proof -
  have f: "example_fs (os_path_join data_dir
                 (''CESM_09x125_PM25_'' @ str_int 2050 @ ''_RCP'' @ ''45'' @ ''.nc''))
             = Some example_baseline_dataset"
    "example_fs (os_path_join data_dir
                 (''CESM_09x125_PM25_'' @ str_int 2050 @ ''_RCP'' @ ''45'' @ ''_NoFire.nc''))
             = Some example_nofire_dataset"
    by (simp_all add: example_fs_def str_int_2050 os_path_join_def data_dir_def starts_with_def
        ends_with_def)
  have v: "example_baseline_dataset ''pm25'' = Some (DA_time [10, 20] [0, 200]
       [[[Fin 10, Fin 20], [Fin 30, Fin 40]], [[Fin 14, Fin 24], [Fin 34, Fin 44]]])"
    "example_nofire_dataset ''pm25'' = Some (DA_time [10, 20] [0, 200] [[[Fin 4, Fin 30], [Fin 2, Fin 2]]])"
    by (simp_all add: example_baseline_dataset_def example_nofire_dataset_def)
  have h: "2 \<le> length ''45''" "[10, 20 :: real] \<noteq> []" "[0, 200 :: real] \<noteq> []"
    by simp_all
  note t = loader_collapses_time [OF f v h]
  from t [THEN conjunct1]
  have "process_scenario_data example_fs 2050 ''45'' = Inr example_loaded"
    by (simp add: example_loaded_def loader_defs)
  moreover from t [THEN conjunct2, rule_format, of 1 0
      "[[[Fin 10, Fin 20], [Fin 30, Fin 40]], [[Fin 14, Fin 24], [Fin 34, Fin 44]]]"]
  have "vals (time_average (DA_time [10, 20] [0, 200]
       [[[Fin 10, Fin 20], [Fin 30, Fin 40]], [[Fin 14, Fin 24], [Fin 34, Fin 44]]])) ! 1 ! 0 = Fin 32"
    by (simp add: isfinite_def fin_value_def)
  moreover from t [THEN conjunct2, rule_format, of 1 0 "[]"]
  have "vals (time_average (DA_time [10, 20] [0, 200] [])) ! 1 ! 0 = NaN"
    by simp
  ultimately show ?thesis
    by (intro conjI)
qed

section \<open>Orchestrator: facts\<close>

lemma example_load_2000: "load_2000 example_fs = Inr example_loaded"
  by (simp add: load_2000_def example_fs_def example_baseline_dataset_def
      example_nofire_dataset_def example_loaded_def loader_defs)

lemma example_process_scenario_data:
  "process_scenario_data example_fs 2050 ''45'' = Inr example_loaded"
  "process_scenario_data example_fs 2050 ''85'' = Inr example_loaded"
  "process_scenario_data example_fs 2100 ''45'' = Inr example_loaded"
  "process_scenario_data example_fs 2100 ''85'' = Inr example_loaded"
  by (simp_all add: process_scenario_data_def str_int_2050 str_int_2100 example_fs_def
      example_baseline_dataset_def example_nofire_dataset_def example_loaded_def loader_defs)

lemma derive_fields_Inr:
  assumes "derive_fields (w0, b0, n0) (w1, b1, n1) (w2, b2, n2) (w3, b3, n3) (w4, b4, n4) = Inr m"
  shows "m =
        [(''baseline_pm25_2000'', b0),
         (''baseline_pm25_2050_45'', b1),
         (''baseline_pm25_2050_85'', b2),
         (''baseline_pm25_2100_45'', b3),
         (''baseline_pm25_2100_85'', b4),
         (''nofire_pm25_2000'', n0),
         (''nofire_pm25_2050_45'', n1),
         (''nofire_pm25_2050_85'', n2),
         (''nofire_pm25_2100_45'', n3),
         (''nofire_pm25_2100_85'', n4),
         (''wildfire_pm25_2000'', w0),
         (''wildfire_pm25_2050_45'', w1),
         (''wildfire_pm25_2050_85'', w2),
         (''wildfire_pm25_2100_45'', w3),
         (''wildfire_pm25_2100_85'', w4),
         (''change_2000_to_2050_45'', da_sub w1 w0),
         (''change_2000_to_2050_85'', da_sub w2 w0),
         (''change_2050_to_2100_45'', da_sub w3 w1),
         (''change_2050_to_2100_85'', da_sub w4 w2),
         (''change_2000_to_2100_45'', da_sub w3 w0),
         (''change_2000_to_2100_85'', da_sub w4 w0),
         (''solar_change_2000'', calculate_solar_potential_change w0),
         (''solar_change_2050_45'', calculate_solar_potential_change w1),
         (''solar_change_2050_85'', calculate_solar_potential_change w2),
         (''solar_change_2100_45'', calculate_solar_potential_change w3),
         (''solar_change_2100_85'', calculate_solar_potential_change w4),
         (''solar_diff_2000_to_2050_45'',
          da_sub (calculate_solar_potential_change w1) (calculate_solar_potential_change w0)),
         (''solar_diff_2000_to_2050_85'',
          da_sub (calculate_solar_potential_change w2) (calculate_solar_potential_change w0)),
         (''solar_diff_2050_to_2100_45'',
          da_sub (calculate_solar_potential_change w3) (calculate_solar_potential_change w1)),
         (''solar_diff_2050_to_2100_85'',
          da_sub (calculate_solar_potential_change w4) (calculate_solar_potential_change w2)),
         (''solar_diff_2000_to_2100_45'',
          da_sub (calculate_solar_potential_change w3) (calculate_solar_potential_change w0)),
         (''solar_diff_2000_to_2100_85'',
          da_sub (calculate_solar_potential_change w4) (calculate_solar_potential_change w0))]"
  using assms by (simp add: derive_fields_def Let_def split: sum.splits)

lemma main_Inr:
  assumes "main fs = Inr m"
  shows "\<exists>w0 b0 n0 w1 b1 n1 w2 b2 n2 w3 b3 n3 w4 b4 n4. m =
        [(''baseline_pm25_2000'', b0),
         (''baseline_pm25_2050_45'', b1),
         (''baseline_pm25_2050_85'', b2),
         (''baseline_pm25_2100_45'', b3),
         (''baseline_pm25_2100_85'', b4),
         (''nofire_pm25_2000'', n0),
         (''nofire_pm25_2050_45'', n1),
         (''nofire_pm25_2050_85'', n2),
         (''nofire_pm25_2100_45'', n3),
         (''nofire_pm25_2100_85'', n4),
         (''wildfire_pm25_2000'', w0),
         (''wildfire_pm25_2050_45'', w1),
         (''wildfire_pm25_2050_85'', w2),
         (''wildfire_pm25_2100_45'', w3),
         (''wildfire_pm25_2100_85'', w4),
         (''change_2000_to_2050_45'', da_sub w1 w0),
         (''change_2000_to_2050_85'', da_sub w2 w0),
         (''change_2050_to_2100_45'', da_sub w3 w1),
         (''change_2050_to_2100_85'', da_sub w4 w2),
         (''change_2000_to_2100_45'', da_sub w3 w0),
         (''change_2000_to_2100_85'', da_sub w4 w0),
         (''solar_change_2000'', calculate_solar_potential_change w0),
         (''solar_change_2050_45'', calculate_solar_potential_change w1),
         (''solar_change_2050_85'', calculate_solar_potential_change w2),
         (''solar_change_2100_45'', calculate_solar_potential_change w3),
         (''solar_change_2100_85'', calculate_solar_potential_change w4),
         (''solar_diff_2000_to_2050_45'',
          da_sub (calculate_solar_potential_change w1) (calculate_solar_potential_change w0)),
         (''solar_diff_2000_to_2050_85'',
          da_sub (calculate_solar_potential_change w2) (calculate_solar_potential_change w0)),
         (''solar_diff_2050_to_2100_45'',
          da_sub (calculate_solar_potential_change w3) (calculate_solar_potential_change w1)),
         (''solar_diff_2050_to_2100_85'',
          da_sub (calculate_solar_potential_change w4) (calculate_solar_potential_change w2)),
         (''solar_diff_2000_to_2100_45'',
          da_sub (calculate_solar_potential_change w3) (calculate_solar_potential_change w0)),
         (''solar_diff_2000_to_2100_85'',
          da_sub (calculate_solar_potential_change w4) (calculate_solar_potential_change w0))]"
proof -
  from assms obtain s0 s1 s2 s3 s4 where "derive_fields s0 s1 s2 s3 s4 = Inr m"
    by (auto simp add: main_def split: sum.splits)
  then show ?thesis
    by (cases s0, cases s1, cases s2, cases s3, cases s4) (auto dest!: derive_fields_Inr)
qed








lemma example_run_succeeds: "\<exists>m. main example_fs = Inr m"
  by (simp add: main_def example_load_2000 example_process_scenario_data example_loaded_def
      derive_fields_def print_stats_def da_sub_def calculate_solar_potential_change_def
      map_cells_def Let_def)

lemma main_fields_length:
  assumes "main fs = Inr m"
  shows "length m = 32" and "distinct (map fst m)"
  using main_Inr [OF assms] by auto


section \<open>Orchestrator: the returned mapping\<close>

text \<open>
  C6, as stated: a successful run of \<open>main\<close> returns a mapping of exactly 31 fields.
  On the example data directory the run succeeds and returns 32.
\<close>

theorem main_field_count_example:
  "field_count (main example_fs) = Some 32 \<and> field_count (main example_fs) \<noteq> Some 31"
proof -
  from example_run_succeeds obtain m where m: "main example_fs = Inr m" ..
  from main_fields_length(1) [OF m] m show ?thesis
    by (simp add: field_count_def)
qed


text \<open>
  C6, amended: every successful run of \<open>main\<close> returns one flat mapping of exactly 32
  fields under 32 different names (five baseline, five no-fire and five wildfire
  fields, six PM2.5 differences, five solar potential fields, six solar differences).
\<close>

theorem main_returns_32_fields:
  assumes "main fs = Inr m"
  shows "length m = 32 \<and> distinct (map fst m)"
  using main_fields_length [OF assms] by simp

theorem main_returns_32_fields_witness:
  "\<exists>m. main example_fs = Inr m \<and> length m = 32 \<and> distinct (map fst m)"
  using example_run_succeeds main_returns_32_fields [of example_fs] by blast

section \<open>Orchestrator: the differencer\<close>



section \<open>Command line entry point: facts\<close>

lemma run_steps_prefix:
  assumes "run_steps ex steps w = (r, w', started)"
  shows "\<exists>rest. steps = started @ rest \<and> (r = None \<longrightarrow> rest = [])"
  using assms
proof (induction steps arbitrary: w r w' started)
  case Nil
  then show ?case by simp
next
  case (Cons st steps)
  show ?case
  proof (cases "ex st w")
    case (Pair e w1)
    show ?thesis
    proof (cases e)
      case None
      obtain r2 w2 started2 where rec: "run_steps ex steps w1 = (r2, w2, started2)"
        by (cases "run_steps ex steps w1") auto
      with Cons.prems Pair None have "r = r2" and "started = st # started2"
        by simp_all
      with Cons.IH [OF rec] show ?thesis by auto
    next
      case (Some x)
      with Cons.prems Pair show ?thesis by auto
    qed
  qed
qed

lemma failing_run:
  "run_steps (exec failing_env) try_body [] =
     (Some (Exception ''OSError''), [''wildfire_pm25_2000.png''],
      [ProcessData, ExtractDatasets, CreatePm25Map ''wildfire_pm25_2000.png'',
       CreatePm25Map ''wildfire_pm25_2050_rcp45.png''])"
  by (simp add: failing_env_def try_body_def)

lemma try_block_outcomes:
  fixes env :: "'s environment"
  assumes imported: "import_modules env w = (None, w0)"
    and outdir: "set_output_directory env (output_dir_arg argv) w0 = (None, w1)"
    and body: "run_steps (exec env) try_body w1 = (r, w2, started)"
  shows "output_dir_arg argv = (if length argv > 1 then argv ! 1 else ''./figures'')"
    and "r = None \<Longrightarrow>
           run_script env argv w =
             \<lparr>exit_status = 0, error_reports = [], final_world = w2, steps_run = try_body\<rparr>"
    and "r = Some (Exception msg) \<Longrightarrow>
           run_script env argv w =
             \<lparr>exit_status = 1,
              error_reports = [HandlerMessage (Exception msg), HandlerTraceback (Exception msg)],
              final_world = w2, steps_run = started\<rparr>
           \<and> (\<exists>rest. try_body = started @ rest)"
proof -
  from run_steps_prefix [OF body] obtain rest
    where rest: "try_body = started @ rest" and all: "r = None \<longrightarrow> rest = []"
    by blast
  show "output_dir_arg argv = (if length argv > 1 then argv ! 1 else ''./figures'')"
    by (simp add: output_dir_arg_def DEFAULT_OUTPUT_DIR_def)
  show "run_script env argv w =
          \<lparr>exit_status = 0, error_reports = [], final_world = w2, steps_run = try_body\<rparr>"
    if "r = None"
    using that imported outdir body rest all
    by (simp add: run_script_def cli_main_def Let_def)
  show "run_script env argv w =
          \<lparr>exit_status = 1,
           error_reports = [HandlerMessage (Exception msg), HandlerTraceback (Exception msg)],
           final_world = w2, steps_run = started\<rparr>
        \<and> (\<exists>rest. try_body = started @ rest)"
    if "r = Some (Exception msg)"
    using that imported outdir body rest
    by (auto simp add: run_script_def cli_main_def Let_def)
qed

lemma failing_map_is_caught:
  "run_script failing_env [''run_visualization.py''] [] =
     \<lparr>exit_status = 1,
      error_reports = [HandlerMessage (Exception ''OSError''), HandlerTraceback (Exception ''OSError'')],
      final_world = [''wildfire_pm25_2000.png''],
      steps_run = [ProcessData, ExtractDatasets, CreatePm25Map ''wildfire_pm25_2000.png'',
                   CreatePm25Map ''wildfire_pm25_2050_rcp45.png'']\<rparr>"
proof -
  have i: "import_modules failing_env [] = (None, [])"
    by (simp add: failing_env_def)
  have s: "set_output_directory failing_env (output_dir_arg [''run_visualization.py'']) []
             = (None, [])"
    by (simp add: failing_env_def)
  from try_block_outcomes(3) [OF i s failing_run refl] show ?thesis
    by simp
qed

section \<open>Command line entry point: exit codes and logging\<close>

text \<open>
  C9. The claim (and the docstring of \<open>main\<close>, "Exit code (0 for success, 1 for
  error)") has every exception caught by the entry point, reported with a message and
  the trace, and turned into the return value 1. Every call inside the \<open>try\<close> block
  behaves so (\<open>try_block_outcomes\<close>), but \<open>set_output_directory\<close> is called before
  the block: when the output directory given on the command line cannot be created,
  \<open>main\<close> catches nothing, reports nothing and returns nothing; the exception reaches
  the interpreter, whose traceback and exit status 1 end the run.
\<close>

theorem set_output_directory_failure_uncaught:
  "run_script unwritable_env [''run_visualization.py'', ''/proc/figures''] [] =
     \<lparr>exit_status = 1,
      error_reports = [InterpreterTraceback (Exception ''PermissionError'')],
      final_world = [], steps_run = []\<rparr>
   \<and> outcome (cli_main unwritable_env ''/proc/figures'' [])
       = Raised (Exception ''PermissionError'')
   \<and> \<not> handler_logged
         (error_reports (run_script unwritable_env [''run_visualization.py'', ''/proc/figures''] []))"
  by (simp add: run_script_def cli_main_def unwritable_env_def handler_logged_def
      output_dir_arg_def uncaught_def Let_def)

end
